theory Spec2Isabelle
  imports Complex_Main
begin

section \<open>JavaScript strings and numbers\<close>

text \<open>
  A JavaScript string is modelled as a \<^typ>\<open>string\<close>: a list of code units, here restricted to
  the Latin-1 range (one \<^typ>\<open>char\<close> per UTF-16 code unit below 256), so that
  \<open>s.length\<close> is \<^term>\<open>length s\<close>, \<open>s.slice(0, n)\<close> is \<^term>\<open>take n s\<close> and
  \<open>a + b\<close> is \<^term>\<open>a @ b\<close>.
\<close>

definition upperAZ :: string where
  "upperAZ = ''ABCDEFGHIJKLMNOPQRSTUVWXYZ''"

definition lowerAZ :: string where
  "lowerAZ = ''abcdefghijklmnopqrstuvwxyz''"

definition digitChars :: string where
  "digitChars = ''0123456789''"

text \<open>The Latin-1 capitals U+00C0..U+00DE (without the multiplication sign U+00D7).\<close>

definition upperLatin1 :: string where
  "upperLatin1 =
     [CHR 0xC0, CHR 0xC1, CHR 0xC2, CHR 0xC3, CHR 0xC4, CHR 0xC5, CHR 0xC6, CHR 0xC7,
      CHR 0xC8, CHR 0xC9, CHR 0xCA, CHR 0xCB, CHR 0xCC, CHR 0xCD, CHR 0xCE, CHR 0xCF,
      CHR 0xD0, CHR 0xD1, CHR 0xD2, CHR 0xD3, CHR 0xD4, CHR 0xD5, CHR 0xD6,
      CHR 0xD8, CHR 0xD9, CHR 0xDA, CHR 0xDB, CHR 0xDC, CHR 0xDD, CHR 0xDE]"

definition lowerLatin1 :: string where
  "lowerLatin1 =
     [CHR 0xE0, CHR 0xE1, CHR 0xE2, CHR 0xE3, CHR 0xE4, CHR 0xE5, CHR 0xE6, CHR 0xE7,
      CHR 0xE8, CHR 0xE9, CHR 0xEA, CHR 0xEB, CHR 0xEC, CHR 0xED, CHR 0xEE, CHR 0xEF,
      CHR 0xF0, CHR 0xF1, CHR 0xF2, CHR 0xF3, CHR 0xF4, CHR 0xF5, CHR 0xF6,
      CHR 0xF8, CHR 0xF9, CHR 0xFA, CHR 0xFB, CHR 0xFC, CHR 0xFD, CHR 0xFE]"

text \<open>\<open>String.prototype.toLowerCase\<close>, one code unit at a time.\<close>

definition lowerChar :: "char \<Rightarrow> char" where
  "lowerChar c =
     (case map_of (zip (upperAZ @ upperLatin1) (lowerAZ @ lowerLatin1)) c of
        Some d \<Rightarrow> d
      | None \<Rightarrow> c)"

definition toLowerCase :: "string \<Rightarrow> string" where
  "toLowerCase s = map lowerChar s"

text \<open>\<open>s.startsWith(p)\<close> and \<open>s.includes(p)\<close>: \<open>p\<close> occurs in \<open>s\<close> as a contiguous run.\<close>

fun startsWith :: "string \<Rightarrow> string \<Rightarrow> bool" where
  "startsWith s [] = True"
| "startsWith [] (p # ps) = False"
| "startsWith (c # cs) (p # ps) = (c = p \<and> startsWith cs ps)"

fun str_includes :: "string \<Rightarrow> string \<Rightarrow> bool" where
  "str_includes [] p = (p = [])"
| "str_includes (c # cs) p = (startsWith (c # cs) p \<or> str_includes cs p)"

text \<open>
  A JavaScript number that holds an amount of money: \<open>NaN\<close>, the two infinities, or a
  finite value, given by the rational number it denotes (the sign of zero is not kept).
\<close>

datatype number = NaN | PInf | NInf | Num rat

text \<open>The truth value of a number in a condition and under \<open>||\<close>.\<close>

fun truthy :: "number \<Rightarrow> bool" where
  "truthy NaN = False"
| "truthy PInf = True"
| "truthy NInf = True"
| "truthy (Num r) = (r \<noteq> 0)"

text \<open>\<open>a > b\<close>: false as soon as one side is \<open>NaN\<close>.\<close>

fun num_gt :: "number \<Rightarrow> number \<Rightarrow> bool" where
  "num_gt NaN b = False"
| "num_gt a NaN = False"
| "num_gt PInf b = (b \<noteq> PInf)"
| "num_gt NInf b = False"
| "num_gt (Num a) PInf = False"
| "num_gt (Num a) NInf = True"
| "num_gt (Num a) (Num b) = (a > b)"

text \<open>
  What the host brings: its locale-dependent formatters
  \<open>new Intl.NumberFormat('en-KE').format(n)\<close> and \<open>n.toLocaleString()\<close>, and the rounding of
  its arithmetic, which takes the exact result of an operation to the number that stands
  for it (for IEEE 754 doubles the nearest double, ties to even, an infinity beyond the
  range). Nothing is assumed about any of them.
\<close>

record host =
  numberFormat :: "number \<Rightarrow> string"
  toLocaleString :: "number \<Rightarrow> string"
  roundToDouble :: "rat \<Rightarrow> number"

text \<open>
  \<open>a + b\<close> on numbers: \<open>NaN\<close> when either side is \<open>NaN\<close> or the sides are opposite
  infinities, an infinity when one side is, and otherwise the exact sum, rounded.
\<close>

fun num_add :: "host \<Rightarrow> number \<Rightarrow> number \<Rightarrow> number" where
  "num_add h NaN b = NaN"
| "num_add h a NaN = NaN"
| "num_add h PInf NInf = NaN"
| "num_add h NInf PInf = NaN"
| "num_add h PInf b = PInf"
| "num_add h a PInf = PInf"
| "num_add h NInf b = NInf"
| "num_add h a NInf = NInf"
| "num_add h (Num a) (Num b) = roundToDouble h (a + b)"

section \<open>Regular expressions\<close>

text \<open>
  The two regular expressions of \<open>useTextAnalysis.ts\<close> are run by a backtracking matcher
  with the priorities of the ECMAScript one: the alternatives of \<open>|\<close> from left to right,
  greedy \<open>?\<close>, \<open>*\<close> and \<open>+\<close>. A position in the input is the pair of the code units before
  it (nearest first) and the code units after it; matching a pattern at a position gives
  the positions where a match may end, the preferred one first.
\<close>

datatype rx =
    Cls string
  | Seq rx rx
  | Alt rx rx
  | Opt rx
  | Star rx
  | WordB

type_synonym pos = "string \<times> string"

primrec star :: "nat \<Rightarrow> (pos \<Rightarrow> pos list) \<Rightarrow> pos \<Rightarrow> pos list" where
  "star 0 f p = [p]"
| "star (Suc n) f p =
     concat (map (\<lambda>q. if length (snd q) < length (snd p) then star n f q else []) (f p)) @ [p]"

definition wordChars :: string where
  "wordChars = upperAZ @ lowerAZ @ digitChars @ ''_''"

definition isWordChar :: "string \<Rightarrow> bool" where
  "isWordChar s = (case s of [] \<Rightarrow> False | c # _ \<Rightarrow> c \<in> set wordChars)"

primrec rmatch :: "rx \<Rightarrow> pos \<Rightarrow> pos list" where
  "rmatch (Cls cs) = (\<lambda>p. case snd p of
                           [] \<Rightarrow> []
                         | c # r \<Rightarrow> if c \<in> set cs then [(c # fst p, r)] else [])"
| "rmatch (Seq a b) = (\<lambda>p. concat (map (rmatch b) (rmatch a p)))"
| "rmatch (Alt a b) = (\<lambda>p. rmatch a p @ rmatch b p)"
| "rmatch (Opt a) = (\<lambda>p. rmatch a p @ [p])"
| "rmatch (Star a) = (\<lambda>p. star (length (snd p)) (rmatch a) p)"
| "rmatch WordB = (\<lambda>p. if isWordChar (fst p) \<noteq> isWordChar (snd p) then [p] else [])"

text \<open>A literal under the flag \<open>i\<close>: each letter in either case.\<close>

definition bothCases :: "char \<Rightarrow> string" where
  "bothCases c =
     (case map_of (zip (lowerAZ @ upperAZ) (upperAZ @ lowerAZ)) c of
        Some d \<Rightarrow> [c, d]
      | None \<Rightarrow> [c])"

fun Lit :: "string \<Rightarrow> rx" where
  "Lit [] = Opt (Cls [])"
| "Lit [c] = Cls (bothCases c)"
| "Lit (c # cs) = Seq (Cls (bothCases c)) (Lit cs)"

definition Plus :: "rx \<Rightarrow> rx" where
  "Plus a = Seq a (Star a)"

text \<open>\<open>\d\<close>, \<open>\s\<close> and \<open>\w\<close>.\<close>

definition whitespaceChars :: string where
  "whitespaceChars = [CHR 0x09, CHR 0x0A, CHR 0x0B, CHR 0x0C, CHR 0x0D, CHR 0x20, CHR 0xA0]"

definition rx_d :: rx where "rx_d = Cls digitChars"
definition rx_s :: rx where "rx_s = Cls whitespaceChars"
definition rx_w :: rx where "rx_w = Cls wordChars"

text \<open>
  \<open>text.match(re)\<close> for a regular expression with the flag \<open>g\<close>: the matches from left to
  right, each search starting where the previous match ended (one code unit further after
  an empty match); \<open>null\<close> when there is none.
\<close>

function scan :: "rx \<Rightarrow> pos \<Rightarrow> string list" where
  "scan re (b, r) =
     (case rmatch re (b, r) of
        [] \<Rightarrow> (case r of [] \<Rightarrow> [] | c # r' \<Rightarrow> scan re (c # b, r'))
      | (b', r') # _ \<Rightarrow>
          (if length r' < length r
           then take (length r - length r') r # scan re (b', r')
           else [] # (case r of [] \<Rightarrow> [] | c # r'' \<Rightarrow> scan re (c # b, r''))))"
  by pat_completeness auto
termination
  by (relation "measure (\<lambda>(re, b, r). length r)") auto

declare scan.simps [simp del]

definition match_g :: "rx \<Rightarrow> string \<Rightarrow> string list option" where
  "match_g re s = (case scan re ([], s) of [] \<Rightarrow> None | ms \<Rightarrow> Some ms)"


fun Seqs :: "rx list \<Rightarrow> rx" where
  "Seqs [] = Opt (Cls [])"
| "Seqs [a] = a"
| "Seqs (a # as) = Seq a (Seqs as)"

fun Alts :: "rx list \<Rightarrow> rx" where
  "Alts [] = Cls []"
| "Alts [a] = a"
| "Alts (a # as) = Alt a (Alts as)"

section \<open>The keyword lexicon (useTextAnalysis.ts)\<close>

definition PROMISE_KEYWORDS :: "string list" where
  "PROMISE_KEYWORDS =
     [''promise'', ''will pay'', ''commit'', ''guarantee'', ''agree to pay'',
      [CHR ''i'', CHR 0x27] @ ''ll pay'', ''going to pay'', ''can pay'',
      ''naahidi'', ''nitakulipa'', ''nitalipa'', ''nitafanya'', ''nakubali kulipa'',
      ''nitaweza kulipa'', ''naweza kulipa'']"

definition OBJECTION_KEYWORDS :: "string list" where
  "OBJECTION_KEYWORDS =
     [''can'' @ [CHR 0x27] @ ''t afford'', ''don'' @ [CHR 0x27] @ ''t have'', ''lost job'',
      ''unemployed'', ''medical'', ''hospital'', ''sick'', ''hardship'', ''difficult'',
      ''dispute'', ''not my debt'', ''wrong'',
      ''sina pesa'', ''siwezi'', ''nimefukuzwa kazi'', ''sina kazi'', ''mgonjwa'',
      ''hospitali'', ''ugumu'', ''siyo deni langu'', ''si yangu'', ''nimeshindwa'']"

definition AGREEMENT_KEYWORDS :: "string list" where
  "AGREEMENT_KEYWORDS =
     [''agree'', ''deal'', ''accept'', ''okay'', ''fine'', ''will do'', ''sounds good'',
      ''let'' @ [CHR 0x27] @ ''s do'', ''payment plan'',
      ''sawa'', ''nakubali'', ''ndiyo'', ''tutafanya'', ''mpango wa malipo'', ''nimekubali'',
      ''ni sawa'']"

definition POSITIVE_KEYWORDS :: "string list" where
  "POSITIVE_KEYWORDS =
     [''thank'', ''appreciate'', ''helpful'', ''understand'', ''great'', ''good'', ''excellent'',
      ''wonderful'', ''happy'',
      ''asante'', ''nashukuru'', ''nzuri'', ''vizuri'', ''naelewa'', ''furaha'', ''bora'']"

definition NEGATIVE_KEYWORDS :: "string list" where
  "NEGATIVE_KEYWORDS =
     [''angry'', ''frustrated'', ''upset'', ''unfair'', ''ridiculous'', ''terrible'', ''hate'',
      ''worst'', ''awful'',
      ''hasira'', ''sijaelewa'', ''mbaya'', ''dhuluma'', ''sichuki'', ''chuki'', ''vibaya sana'']"

text \<open>
  \<^verbatim>\<open>/(?:KES|Ksh|Kshs?)[\s]*[\d,]+(?:\.\d{2})?|\b\d+(?:,\d{3})*(?:\.\d{2})?\s*(?:shillings?|bob)/gi\<close>
\<close>

definition AMOUNT_REGEX :: rx where
  "AMOUNT_REGEX =
     Alt (Seqs [Alts [Lit ''KES'', Lit ''Ksh'', Seq (Lit ''Ksh'') (Opt (Lit ''s''))],
                Star rx_s,
                Plus (Cls (digitChars @ '','')),
                Opt (Seqs [Cls ''.'', rx_d, rx_d])])
         (Seqs [WordB,
                Plus rx_d,
                Star (Seqs [Cls '','', rx_d, rx_d, rx_d]),
                Opt (Seqs [Cls ''.'', rx_d, rx_d]),
                Star rx_s,
                Alt (Seq (Lit ''shilling'') (Opt (Lit ''s''))) (Lit ''bob'')])"

text \<open>
  \<^verbatim>\<open>/(?:by|on|before|after)\s+(?:the\s+)?(\d{1,2}(?:st|nd|rd|th)?|\w+)\s*(?:of\s+)?(\w+)?/gi\<close>
\<close>

definition DATE_REGEX :: rx where
  "DATE_REGEX =
     Seqs [Alts [Lit ''by'', Lit ''on'', Lit ''before'', Lit ''after''],
           Plus rx_s,
           Opt (Seq (Lit ''the'') (Plus rx_s)),
           Alt (Seqs [rx_d, Opt rx_d, Opt (Alts [Lit ''st'', Lit ''nd'', Lit ''rd'', Lit ''th''])])
               (Plus rx_w),
           Star rx_s,
           Opt (Seq (Lit ''of'') (Plus rx_s)),
           Opt (Plus rx_w)]"

text \<open>
  \<^verbatim>\<open>amounts[0].replace(/[KES|Ksh|Kshs|,\s]/gi, '')\<close>: the pattern is one character class, so
  every \<open>k\<close>, \<open>e\<close>, \<open>s\<close>, \<open>h\<close> (in either case), bar, comma and white space goes.
\<close>

definition stripCurrency :: "string \<Rightarrow> string" where
  "stripCurrency m = filter (\<lambda>c. c \<notin> set (''KESHkesh|,'' @ whitespaceChars)) m"

definition digitVal :: "char \<Rightarrow> nat" where
  "digitVal c = length (takeWhile (\<lambda>d. d \<noteq> c) digitChars)"

definition digitsVal :: "string \<Rightarrow> nat" where
  "digitsVal ds = foldl (\<lambda>n c. 10 * n + digitVal c) 0 ds"

text \<open>
  \<open>parseFloat\<close> on a string without sign, leading white space or exponent (the strings it
  gets here start with a digit or a dot, or are empty, and have lost every \<open>e\<close>): the
  decimal value of the digits before and after the dot, rounded as the host rounds, and
  \<open>NaN\<close> when there is no digit.
\<close>

definition parseFloat :: "host \<Rightarrow> string \<Rightarrow> number" where
  "parseFloat h s =
     (let ip = takeWhile (\<lambda>c. c \<in> set digitChars) s;
          rest = dropWhile (\<lambda>c. c \<in> set digitChars) s;
          fp = (case rest of
                  [] \<Rightarrow> []
                | c # r \<Rightarrow> if c = CHR ''.'' then takeWhile (\<lambda>c. c \<in> set digitChars) r else [])
      in if ip = [] \<and> fp = [] then NaN
         else roundToDouble h (of_nat (digitsVal ip) + of_nat (digitsVal fp) / 10 ^ length fp))"

section \<open>The data model (types)\<close>

datatype ObjectionType = financial_hardship | job_loss | medical | dispute | other_objection

datatype Severity = low | medium | high

datatype AgreementType = payment_plan | settlement | callback | documentation | other_agreement

datatype Sentiment = positive | neutral | negative

record Promise =
  p_id :: string
  p_amount :: "number option"
  p_dueDate :: "string option"
  p_description :: string
  p_timestamp :: int

record Objection =
  o_id :: string
  o_type :: ObjectionType
  o_description :: string
  o_severity :: Severity
  o_timestamp :: int

record Agreement =
  a_id :: string
  a_type :: AgreementType
  a_details :: string
  a_timestamp :: int

record CallExtraction =
  promises :: "Promise list"
  objections :: "Objection list"
  agreements :: "Agreement list"
  sentiment :: Sentiment
  sentimentScore :: int
  keyQuotes :: "string list"
  keywordTags :: "string list"

text \<open>\<open>Partial<CallExtraction>\<close>: every field may be absent.\<close>

record PartialExtraction =
  promises_opt :: "Promise list option"
  objections_opt :: "Objection list option"
  agreements_opt :: "Agreement list option"
  sentiment_opt :: "Sentiment option"
  sentimentScore_opt :: "int option"
  keyQuotes_opt :: "string list option"
  keywords_opt :: "string list option"

record AnalysisResult =
  extraction :: PartialExtraction
  hasSignificantContent :: bool

section \<open>The extraction engine (analyzeText)\<close>

text \<open>
  What one call of \<open>analyzeText\<close> draws from \<open>uuidv4()\<close> and \<open>Date.now()\<close>, for each of the
  three entries it may build.
\<close>

record draws =
  promiseId :: string
  promiseTime :: int
  objectionId :: string
  objectionTime :: int
  agreementId :: string
  agreementTime :: int

definition amountsOf :: "string \<Rightarrow> string list option" where
  "amountsOf text = match_g AMOUNT_REGEX text"

definition extractedAmount :: "host \<Rightarrow> string \<Rightarrow> number option" where
  "extractedAmount h text =
     (case amountsOf text of
        None \<Rightarrow> None
      | Some ms \<Rightarrow>
          (case ms of
             [] \<Rightarrow> None
           | m # _ \<Rightarrow> if m = [] then None else Some (parseFloat h (stripCurrency m))))"

definition hasPromise :: "string \<Rightarrow> bool" where
  "hasPromise text = list_ex (\<lambda>kw. str_includes (toLowerCase text) kw) PROMISE_KEYWORDS"

definition dueDateOf :: "string \<Rightarrow> string option" where
  "dueDateOf text =
     (case match_g DATE_REGEX text of
        None \<Rightarrow> None
      | Some ms \<Rightarrow> (case ms of [] \<Rightarrow> None | m # _ \<Rightarrow> Some m))"

definition objectionKeyword :: "string \<Rightarrow> string option" where
  "objectionKeyword text =
     List.find (\<lambda>kw. str_includes (toLowerCase text) kw) OBJECTION_KEYWORDS"

definition objectionClass :: "string \<Rightarrow> ObjectionType \<times> Severity" where
  "objectionClass lowerText =
     (if str_includes lowerText ''job'' \<or> str_includes lowerText ''unemployed''
      then (job_loss, high)
      else if str_includes lowerText ''medical'' \<or> str_includes lowerText ''hospital''
              \<or> str_includes lowerText ''sick''
      then (medical, high)
      else if str_includes lowerText ''afford'' \<or> str_includes lowerText ''hardship''
      then (financial_hardship, medium)
      else if str_includes lowerText ''dispute'' \<or> str_includes lowerText ''not my''
              \<or> str_includes lowerText ''wrong''
      then (dispute, high)
      else (other_objection, medium))"

definition hasAgreement :: "string \<Rightarrow> bool" where
  "hasAgreement text = list_ex (\<lambda>kw. str_includes (toLowerCase text) kw) AGREEMENT_KEYWORDS"

definition agreementClass :: "string \<Rightarrow> AgreementType" where
  "agreementClass lowerText =
     (if str_includes lowerText ''payment plan'' \<or> str_includes lowerText ''monthly''
      then payment_plan
      else if str_includes lowerText ''settle'' \<or> str_includes lowerText ''settlement''
      then settlement
      else if str_includes lowerText ''call'' \<or> str_includes lowerText ''callback''
      then callback
      else other_agreement)"

definition keywordHits :: "string list \<Rightarrow> string \<Rightarrow> int" where
  "keywordHits kws lowerText = int (length (filter (\<lambda>kw. str_includes lowerText kw) kws))"

definition totalPositive :: "string \<Rightarrow> string \<Rightarrow> int" where
  "totalPositive text fullTranscript =
     keywordHits POSITIVE_KEYWORDS (toLowerCase text)
       + keywordHits POSITIVE_KEYWORDS (toLowerCase fullTranscript)"

definition totalNegative :: "string \<Rightarrow> string \<Rightarrow> int" where
  "totalNegative text fullTranscript =
     keywordHits NEGATIVE_KEYWORDS (toLowerCase text)
       + keywordHits NEGATIVE_KEYWORDS (toLowerCase fullTranscript)"

definition sentimentOf :: "int \<Rightarrow> int \<Rightarrow> Sentiment \<times> int" where
  "sentimentOf tp tn =
     (if tp > tn + 1 then (positive, min 95 (50 + (tp - tn) * 15))
      else if tn > tp + 1 then (negative, max 5 (50 - (tn - tp) * 15))
      else if tp > 0 \<or> tn > 0 then (neutral, 50 + (tp - tn) * 10)
      else (neutral, 50))"

definition analyzeText :: "host \<Rightarrow> draws \<Rightarrow> string \<Rightarrow> string \<Rightarrow> AnalysisResult" where
  "analyzeText h d text fullTranscript =
     (let lowerText = toLowerCase text;
          objectionFound = (objectionKeyword text \<noteq> None \<and> objectionKeyword text \<noteq> Some []);
          agreementFound = (hasAgreement text \<and> length text > 20);
          significant = (hasPromise text \<or> objectionFound \<or> agreementFound);
          s = sentimentOf (totalPositive text fullTranscript) (totalNegative text fullTranscript)
      in \<lparr>extraction =
            \<lparr>promises_opt =
               (if hasPromise text
                then Some [\<lparr>p_id = promiseId d, p_amount = extractedAmount h text,
                            p_dueDate = dueDateOf text, p_description = take 100 text,
                            p_timestamp = promiseTime d\<rparr>]
                else None),
             objections_opt =
               (if objectionFound
                then Some [\<lparr>o_id = objectionId d, o_type = fst (objectionClass lowerText),
                            o_description = take 100 text,
                            o_severity = snd (objectionClass lowerText),
                            o_timestamp = objectionTime d\<rparr>]
                else None),
             agreements_opt =
               (if agreementFound
                then Some [\<lparr>a_id = agreementId d, a_type = agreementClass lowerText,
                            a_details = take 100 text, a_timestamp = agreementTime d\<rparr>]
                else None),
             sentiment_opt = Some (fst s),
             sentimentScore_opt = Some (snd s),
             keyQuotes_opt =
               (if length text > 30 \<and> (hasPromise text \<or> hasAgreement text \<or> significant)
                then Some [take 150 text]
                else None),
             keywords_opt = Some (case amountsOf text of None \<Rightarrow> [] | Some ms \<Rightarrow> ms)\<rparr>,
          hasSignificantContent = significant\<rparr>)"

section \<open>More of JavaScript\<close>

text \<open>\<open>xs.join(sep)\<close>.\<close>

fun join :: "string \<Rightarrow> string list \<Rightarrow> string" where
  "join sep [] = []"
| "join sep [x] = x"
| "join sep (x # y # ys) = x @ sep @ join sep (y # ys)"

text \<open>\<open>[...new Set(xs)]\<close>: the elements in the order of their first occurrence.\<close>

definition uniq :: "'a list \<Rightarrow> 'a list" where
  "uniq xs = foldl (\<lambda>acc x. if x \<in> set acc then acc else acc @ [x]) [] xs"

text \<open>\<open>s.replace('_', ' ')\<close>: a string pattern replaces its first occurrence only.\<close>

fun replaceFirst :: "char \<Rightarrow> char \<Rightarrow> string \<Rightarrow> string" where
  "replaceFirst a b [] = []"
| "replaceFirst a b (c # cs) = (if c = a then b # cs else c # replaceFirst a b cs)"

text \<open>\<open>s.split(/[.!?]/)\<close> for a set of separators, and \<open>s.trim()\<close>.\<close>

fun splitOn :: "string \<Rightarrow> string \<Rightarrow> string list" where
  "splitOn seps [] = [[]]"
| "splitOn seps (c # cs) =
     (if c \<in> set seps then [] # splitOn seps cs
      else (case splitOn seps cs of
              [] \<Rightarrow> [[c]]
            | w # ws \<Rightarrow> (c # w) # ws))"

definition trim :: "string \<Rightarrow> string" where
  "trim s =
     rev (dropWhile (\<lambda>c. c \<in> set whitespaceChars)
            (rev (dropWhile (\<lambda>c. c \<in> set whitespaceChars) s)))"

text \<open>A natural number in a template literal: its decimal digits.\<close>

function showNat :: "nat \<Rightarrow> string" where
  "showNat n = (if n < 10 then [digitChars ! n] else showNat (n div 10) @ [digitChars ! (n mod 10)])"
  by pat_completeness auto
termination
  by (relation "measure id") auto

declare showNat.simps [simp del]

section \<open>The data model, continued (types)\<close>

record Customer =
  cust_name :: string
  cust_phone :: string
  cust_accountNumber :: string
  cust_debtAmount :: number

datatype Speaker = agent | customer | user

record TranscriptEntry =
  t_id :: string
  t_speaker :: Speaker
  t_text :: string
  t_timestamp :: int
  t_isFinal :: bool

record CallSummary =
  s_id :: string
  s_callId :: string
  s_summaryText :: string
  s_nextActions :: "string list"
  s_createdAt :: int

datatype CallStatus = active | completed | cancelled

record Call =
  c_id :: string
  c_customer :: Customer
  c_startedAt :: int
  c_endedAt :: "int option"
  c_duration :: nat
  c_status :: CallStatus
  c_transcript :: "TranscriptEntry list"
  c_extraction :: CallExtraction
  c_summary :: "CallSummary option"
  c_isMuted :: bool

record CallHistoryItem =
  h_id :: string
  h_customer :: Customer
  h_startedAt :: int
  h_endedAt :: int
  h_duration :: nat
  h_sentiment :: Sentiment
  h_promisesCount :: nat
  h_totalPromisedAmount :: number
  h_summary :: "string option"
  h_fullTranscript :: "string option"

definition objectionTypeName :: "ObjectionType \<Rightarrow> string" where
  "objectionTypeName t =
     (case t of
        financial_hardship \<Rightarrow> ''financial_hardship''
      | job_loss \<Rightarrow> ''job_loss''
      | medical \<Rightarrow> ''medical''
      | dispute \<Rightarrow> ''dispute''
      | other_objection \<Rightarrow> ''other'')"

definition agreementTypeName :: "AgreementType \<Rightarrow> string" where
  "agreementTypeName t =
     (case t of
        payment_plan \<Rightarrow> ''payment_plan''
      | settlement \<Rightarrow> ''settlement''
      | callback \<Rightarrow> ''callback''
      | documentation \<Rightarrow> ''documentation''
      | other_agreement \<Rightarrow> ''other'')"

text \<open>\<open>p.amount || 0\<close>: a missing amount, \<open>NaN\<close> and \<open>0\<close> all give \<open>0\<close>.\<close>

definition amountOrZero :: "Promise \<Rightarrow> number" where
  "amountOrZero p =
     (case p_amount p of
        None \<Rightarrow> Num 0
      | Some a \<Rightarrow> if truthy a then a else Num 0)"

text \<open>
  \<open>promises.reduce((sum, p) => sum + (p.amount || 0), 0)\<close>: the additions are made from left
  to right, each of them rounded.
\<close>

definition totalAmountOf :: "host \<Rightarrow> Promise list \<Rightarrow> number" where
  "totalAmountOf h ps = foldl (\<lambda>sum p. num_add h sum (amountOrZero p)) (Num 0) ps"

section \<open>The AI service (geminiService.ts): call summary\<close>

text \<open>
  What \<open>callGeminiAPI\<close> followed by the decoding of its answer comes to, for a summary
  request: a failure (the request throws, or the text holds no JSON object, or
  \<open>JSON.parse\<close> throws), or a parsed object with its fields \<open>summary\<close> and \<open>nextActions\<close>,
  either of which may be missing.
\<close>

datatype summaryReply =
    SummaryFailed
  | SummaryParsed "string option" "string list option"

record Extractions =
  ex_promises :: "Promise list"
  ex_objections :: "Objection list"
  ex_agreements :: "Agreement list"
  ex_sentiment :: Sentiment

record SummaryResult =
  sr_summary :: string
  sr_nextActions :: "string list"

definition generateFallbackNextActions ::
    "host \<Rightarrow> string \<Rightarrow> number \<Rightarrow> Extractions \<Rightarrow> string list" where
  "generateFallbackNextActions h customerName debtAmount extractions =
     (let actions =
            (case ex_promises extractions of
               [] \<Rightarrow> []
             | promise # _ \<Rightarrow>
                 [case p_amount promise of
                    None \<Rightarrow> ''Follow up on payment commitment from '' @ customerName
                  | Some a \<Rightarrow>
                      if truthy a
                      then ''Monitor KES '' @ toLocaleString h a @ '' payment from '' @ customerName
                      else ''Follow up on payment commitment from '' @ customerName,
                  ''Send M-Pesa payment details via SMS''])
            @ (if list_ex (\<lambda>ob. o_type ob = financial_hardship \<or> o_type ob = job_loss)
                    (ex_objections extractions)
               then [''Review account for hardship assistance program eligibility''] else [])
            @ (if list_ex (\<lambda>ob. o_type ob = dispute) (ex_objections extractions)
               then [''Escalate account dispute to supervisor for investigation''] else [])
            @ (if list_ex (\<lambda>ag. a_type ag = payment_plan) (ex_agreements extractions)
               then [''Prepare payment plan documentation and send to customer''] else [])
            @ (if list_ex (\<lambda>ag. a_type ag = callback) (ex_agreements extractions)
               then [''Schedule callback as agreed with customer''] else [])
            @ (if ex_sentiment extractions = negative
               then [''Consider assigning senior agent for follow-up due to customer concerns'']
               else [])
      in take 5
           (if actions = []
            then [''Schedule follow-up call with '' @ customerName @ '' within 5 business days'',
                  ''Send account statement showing KES '' @ toLocaleString h debtAmount
                    @ '' balance'']
            else actions))"

definition fallbackSentimentText :: "Sentiment \<Rightarrow> string" where
  "fallbackSentimentText s =
     (case s of
        positive \<Rightarrow> ''Call ended on a positive note with good cooperation.''
      | neutral \<Rightarrow> ''Customer remained neutral throughout the conversation.''
      | negative \<Rightarrow> ''Customer expressed concerns that may need follow-up.'')"

definition generateFallbackSummary ::
    "host \<Rightarrow> string \<Rightarrow> number \<Rightarrow> string \<Rightarrow> Extractions \<Rightarrow> SummaryResult" where
  "generateFallbackSummary h customerName debtAmount transcript extractions =
     (let types = map o_type (ex_objections extractions);
          parts =
            [''Call with '' @ customerName @ '' regarding outstanding balance of KES ''
               @ toLocaleString h debtAmount @ ''.'']
            @ (if ex_promises extractions \<noteq> []
               then (if num_gt (totalAmountOf h (ex_promises extractions)) (Num 0)
                     then [''Customer committed to pay KES ''
                             @ toLocaleString h (totalAmountOf h (ex_promises extractions)) @ ''.'']
                     else [''Customer indicated willingness to make payment.''])
               else if ex_objections extractions \<noteq> []
               then (if financial_hardship \<in> set types
                     then [''Customer expressed financial difficulties and may need flexible payment options.'']
                     else if job_loss \<in> set types
                     then [''Customer mentioned job loss situation.'']
                     else if dispute \<in> set types
                     then [''Customer disputed the debt and requested verification.'']
                     else [])
               else [''Discussion focused on account status and payment options.''])
            @ [fallbackSentimentText (ex_sentiment extractions)]
      in \<lparr>sr_summary = join '' '' (filter (\<lambda>p. p \<noteq> []) parts),
          sr_nextActions = generateFallbackNextActions h customerName debtAmount extractions\<rparr>)"

text \<open>
  \<open>generateAISummary\<close>. The second component of the result tells whether \<open>callGeminiAPI\<close> was
  called; \<open>reply\<close> is what that call and the decoding of its answer come to when it is.
\<close>

definition generateAISummary ::
    "host \<Rightarrow> summaryReply \<Rightarrow> string \<Rightarrow> string \<Rightarrow> number \<Rightarrow> nat \<Rightarrow> Extractions
       \<Rightarrow> SummaryResult \<times> bool" where
  "generateAISummary h reply transcript customerName debtAmount duration existingExtractions =
     (if transcript = [] \<or> length transcript < 10
      then (\<lparr>sr_summary = ''Session completed with minimal conversation.'',
              sr_nextActions = [''Schedule follow-up call'', ''Review account status'']\<rparr>, False)
      else (case reply of
              SummaryParsed summary nextActions \<Rightarrow>
                (\<lparr>sr_summary =
                    (case summary of
                       None \<Rightarrow> ''Call completed.''
                     | Some s \<Rightarrow> if s = [] then ''Call completed.'' else s),
                  sr_nextActions =
                    (case nextActions of
                       None \<Rightarrow>
                         generateFallbackNextActions h customerName debtAmount existingExtractions
                     | Some as \<Rightarrow> as)\<rparr>, True)
            | SummaryFailed \<Rightarrow>
                (generateFallbackSummary h customerName debtAmount transcript existingExtractions,
                 True)))"


section \<open>The session store (callStore.ts)\<close>

datatype Theme = light | dark

record CallState =
  currentCall :: "Call option"
  callHistory :: "CallHistoryItem list"
  theme :: Theme

definition initialExtraction :: CallExtraction where
  "initialExtraction =
     \<lparr>promises = [], objections = [], agreements = [], sentiment = neutral, sentimentScore = 50,
      keyQuotes = [], keywordTags = []\<rparr>"

definition initialState :: CallState where
  "initialState = \<lparr>currentCall = None, callHistory = [], theme = light\<rparr>"

text \<open>\<open>startCall\<close>; \<open>newId\<close> is the value of \<open>uuidv4()\<close> and \<open>now\<close> that of \<open>new Date()\<close>.\<close>

definition startCall :: "string \<Rightarrow> int \<Rightarrow> Customer \<Rightarrow> CallState \<Rightarrow> CallState" where
  "startCall newId now cust st =
     st\<lparr>currentCall :=
          Some \<lparr>c_id = newId, c_customer = cust, c_startedAt = now, c_endedAt = None,
                c_duration = 0, c_status = active, c_transcript = [],
                c_extraction = initialExtraction, c_summary = None, c_isMuted = False\<rparr>\<rparr>"

definition formatDuration :: "nat \<Rightarrow> string" where
  "formatDuration seconds =
     (let mins = seconds div 60; secs = seconds mod 60
      in if mins = 0 then showNat secs @ '' seconds''
         else showNat mins @ '' minute'' @ (if mins > 1 then ''s'' else '''') @ '' ''
                @ showNat secs @ '' second'' @ (if secs \<noteq> 1 then ''s'' else ''''))"

definition fullTranscriptOf :: "Call \<Rightarrow> string" where
  "fullTranscriptOf call = join '' '' (map t_text (c_transcript call))"

definition generateContextAwareNextActions :: "host \<Rightarrow> Call \<Rightarrow> string list" where
  "generateContextAwareNextActions h call =
     (let ex = c_extraction call;
          fullTranscript = toLowerCase (fullTranscriptOf call);
          actions =
            (case promises ex of
               [] \<Rightarrow> []
             | promise # _ \<Rightarrow>
                 (if num_gt (totalAmountOf h (promises ex)) (Num 0)
                  then [''Monitor payment of KES '' @ numberFormat h (totalAmountOf h (promises ex))
                          @ '' from '' @ cust_name (c_customer call)]
                  else [])
                 @ [case p_dueDate promise of
                      None \<Rightarrow> ''Confirm payment date with customer via SMS''
                    | Some dd \<Rightarrow>
                        if dd = [] then ''Confirm payment date with customer via SMS''
                        else ''Set reminder for payment due '' @ dd])
            @ (if str_includes fullTranscript ''m-pesa'' \<or> str_includes fullTranscript ''mpesa''
               then [''Verify M-Pesa payment receipt upon receiving''] else [])
            @ (if list_ex (\<lambda>ag. a_type ag = payment_plan) (agreements ex)
                  \<or> str_includes fullTranscript ''payment plan''
                  \<or> str_includes fullTranscript ''installment''
               then [''Prepare payment plan documentation and send to customer''] else [])
            @ (if list_ex (\<lambda>ag. a_type ag = callback) (agreements ex)
                  \<or> str_includes fullTranscript ''call back''
                  \<or> str_includes fullTranscript ''call me''
               then [''Schedule follow-up call as agreed with customer''] else [])
            @ (if list_ex (\<lambda>ob. o_type ob = job_loss \<or> o_type ob = financial_hardship)
                    (objections ex)
               then [''Review account for hardship assistance options'',
                     ''Send information about flexible payment programs''] else [])
            @ (if list_ex (\<lambda>ob. o_type ob = medical) (objections ex)
               then [''Flag account for medical hardship review''] else [])
            @ (if list_ex (\<lambda>ob. o_type ob = dispute) (objections ex)
               then [''Escalate account dispute to supervisor for investigation'',
                     ''Send account statement and transaction history to customer''] else [])
            @ (if str_includes fullTranscript ''statement''
                  \<or> str_includes fullTranscript ''document''
               then [''Email account statement to customer''] else [])
            @ (if sentiment ex = negative
               then [''Consider supervisor follow-up call to address concerns''] else [])
      in take 5
           (if actions = []
            then (if length fullTranscript > 50
                  then [''Follow up with '' @ cust_name (c_customer call) @ '' within 7 days'',
                        ''Send account reminder via SMS'']
                  else [''Attempt callback - conversation was brief'',
                        ''Review account for alternative contact methods''])
            else actions))"

definition basicSentimentText :: "Sentiment \<Rightarrow> string" where
  "basicSentimentText s =
     (case s of
        positive \<Rightarrow> ''The conversation was cooperative and constructive''
      | neutral \<Rightarrow> ''The conversation maintained a neutral tone''
      | negative \<Rightarrow> ''The conversation included some concerns or resistance'')"

text \<open>
  \<open>generateBasicCallSummary\<close>; \<open>newId\<close> and \<open>now\<close> are the values of \<open>uuidv4()\<close> and
  \<open>new Date()\<close> for the summary record.
\<close>

definition generateBasicCallSummary ::
    "host \<Rightarrow> string \<Rightarrow> int \<Rightarrow> Call \<Rightarrow> string option \<Rightarrow> CallSummary" where
  "generateBasicCallSummary h newId now call customSummary =
     (let ex = c_extraction call;
          own = (case customSummary of None \<Rightarrow> [] | Some s \<Rightarrow> s);
          summaryParts =
            (if own \<noteq> [] then [own]
             else [''Call with '' @ cust_name (c_customer call) @ '' (Account: ''
                     @ cust_accountNumber (c_customer call) @ '') lasted ''
                     @ formatDuration (c_duration call) @ ''.'',
                   basicSentimentText (sentiment ex) @ ''.'']
                  @ (if objections ex \<noteq> []
                     then [''Issues raised: ''
                             @ join '', ''
                                 (uniq (map (\<lambda>ob. replaceFirst (CHR ''_'') (CHR '' '')
                                                     (objectionTypeName (o_type ob)))
                                          (objections ex)))
                             @ ''.'']
                     else [])
                  @ (if promises ex \<noteq> [] \<and> num_gt (totalAmountOf h (promises ex)) (Num 0)
                     then [''Payment commitment: KES ''
                             @ numberFormat h (totalAmountOf h (promises ex)) @ ''.'']
                     else [])
                  @ (if agreements ex \<noteq> []
                     then [''Agreements: ''
                             @ join '', ''
                                 (uniq (map (\<lambda>ag. replaceFirst (CHR ''_'') (CHR '' '')
                                                     (agreementTypeName (a_type ag)))
                                          (agreements ex)))
                             @ ''.'']
                     else []))
      in \<lparr>s_id = newId, s_callId = c_id call, s_summaryText = join '' '' summaryParts,
          s_nextActions = generateContextAwareNextActions h call, s_createdAt = now\<rparr>)"

text \<open>
  What ending a call draws: \<open>new Date()\<close> for \<open>endedAt\<close>, then \<open>uuidv4()\<close> and \<open>new Date()\<close>
  for the summary record.
\<close>

record endDraws =
  endedNow :: int
  summaryId :: string
  summaryNow :: int

definition historyItemOf ::
    "host \<Rightarrow> Call \<Rightarrow> int \<Rightarrow> string \<Rightarrow> string \<Rightarrow> CallHistoryItem" where
  "historyItemOf h endedCall ended summaryText fullTranscript =
     \<lparr>h_id = c_id endedCall, h_customer = c_customer endedCall,
      h_startedAt = c_startedAt endedCall, h_endedAt = ended,
      h_duration = c_duration endedCall,
      h_sentiment = sentiment (c_extraction endedCall),
      h_promisesCount = length (promises (c_extraction endedCall)),
      h_totalPromisedAmount = totalAmountOf h (promises (c_extraction endedCall)),
      h_summary = Some summaryText, h_fullTranscript = Some fullTranscript\<rparr>"

definition endCall :: "endDraws \<Rightarrow> host \<Rightarrow> string option \<Rightarrow> CallState \<Rightarrow> CallState" where
  "endCall d h summaryText st =
     (case currentCall st of
        None \<Rightarrow> st
      | Some cur \<Rightarrow>
          (let ended0 = cur\<lparr>c_status := completed, c_endedAt := Some (endedNow d)\<rparr>;
               summary = generateBasicCallSummary h (summaryId d) (summaryNow d) ended0 summaryText;
               endedCall = ended0\<lparr>c_summary := Some summary\<rparr>;
               historyItem = historyItemOf h endedCall (endedNow d) (s_summaryText summary)
                               (fullTranscriptOf endedCall)
           in st\<lparr>currentCall := Some endedCall, callHistory := historyItem # callHistory st\<rparr>))"

text \<open>
  \<open>endCallWithAI\<close>. \<open>summarise\<close> stands for the awaited \<open>generateAISummary\<close>: \<open>Inr\<close> its
  result, \<open>Inl\<close> a rejection, which the \<open>catch\<close> answers with \<open>endCall()\<close> (drawing \<open>d'\<close>).
  The call and the history item are built from the call read before the request; \<open>later\<close>
  is the state of the store when the request settles, which other events may have changed
  in the meantime.
\<close>

definition endCallWithAI ::
    "endDraws \<Rightarrow> endDraws \<Rightarrow> host
       \<Rightarrow> (string \<Rightarrow> string \<Rightarrow> number \<Rightarrow> nat \<Rightarrow> Extractions \<Rightarrow> unit + SummaryResult)
       \<Rightarrow> CallState \<Rightarrow> CallState \<Rightarrow> CallState" where
  "endCallWithAI d d' h summarise later st =
     (case currentCall st of
        None \<Rightarrow> st
      | Some cur \<Rightarrow>
          (let ended0 = cur\<lparr>c_status := completed, c_endedAt := Some (endedNow d)\<rparr>;
               fullTranscript = fullTranscriptOf ended0
           in case summarise fullTranscript (cust_name (c_customer ended0))
                     (cust_debtAmount (c_customer ended0)) (c_duration ended0)
                     \<lparr>ex_promises = promises (c_extraction ended0),
                      ex_objections = objections (c_extraction ended0),
                      ex_agreements = agreements (c_extraction ended0),
                      ex_sentiment = sentiment (c_extraction ended0)\<rparr> of
                Inl _ \<Rightarrow> endCall d' h None later
              | Inr aiResult \<Rightarrow>
                  (let summary = \<lparr>s_id = summaryId d, s_callId = c_id ended0,
                                  s_summaryText = sr_summary aiResult,
                                  s_nextActions = sr_nextActions aiResult,
                                  s_createdAt = summaryNow d\<rparr>;
                       endedCall = ended0\<lparr>c_summary := Some summary\<rparr>;
                       historyItem = historyItemOf h endedCall (endedNow d) (s_summaryText summary)
                                       fullTranscript
                   in later\<lparr>currentCall := Some endedCall,
                            callHistory := historyItem # callHistory later\<rparr>)))"

text \<open>The store's own use of it: \<open>generateAISummary\<close> of the service, which never rejects.\<close>

definition endCallWithGemini ::
    "endDraws \<Rightarrow> endDraws \<Rightarrow> host \<Rightarrow> summaryReply \<Rightarrow> CallState \<Rightarrow> CallState \<Rightarrow> CallState" where
  "endCallWithGemini d d' h reply later st =
     endCallWithAI d d' h
       (\<lambda>t n debt dur ex. Inr (fst (generateAISummary h reply t n debt dur ex))) later st"

definition cancelCall :: "CallState \<Rightarrow> CallState" where
  "cancelCall st = st\<lparr>currentCall := None\<rparr>"

text \<open>\<open>addTranscriptEntry\<close>; \<open>newId\<close> is the value of \<open>uuidv4()\<close>.\<close>

definition addTranscriptEntry ::
    "string \<Rightarrow> Speaker \<Rightarrow> string \<Rightarrow> int \<Rightarrow> bool \<Rightarrow> CallState \<Rightarrow> CallState" where
  "addTranscriptEntry newId speaker txt stamp final st =
     (case currentCall st of
        None \<Rightarrow> st\<lparr>currentCall := None\<rparr>
      | Some cur \<Rightarrow>
          st\<lparr>currentCall :=
               Some (cur\<lparr>c_transcript :=
                           c_transcript cur
                           @ [\<lparr>t_id = newId, t_speaker = speaker, t_text = txt,
                                t_timestamp = stamp, t_isFinal = final\<rparr>]\<rparr>)\<rparr>)"

definition updateExtraction :: "PartialExtraction \<Rightarrow> CallState \<Rightarrow> CallState" where
  "updateExtraction ex st =
     (case currentCall st of
        None \<Rightarrow> st
      | Some cur \<Rightarrow>
          (let currentExtraction = c_extraction cur;
               newExtraction =
                 \<lparr>promises =
                    (case promises_opt ex of
                       Some ps \<Rightarrow> promises currentExtraction @ ps
                     | None \<Rightarrow> promises currentExtraction),
                  objections =
                    (case objections_opt ex of
                       Some os \<Rightarrow> objections currentExtraction @ os
                     | None \<Rightarrow> objections currentExtraction),
                  agreements =
                    (case agreements_opt ex of
                       Some as \<Rightarrow> agreements currentExtraction @ as
                     | None \<Rightarrow> agreements currentExtraction),
                  sentiment =
                    (case sentiment_opt ex of
                       Some s \<Rightarrow> s
                     | None \<Rightarrow> sentiment currentExtraction),
                  sentimentScore =
                    (case sentimentScore_opt ex of
                       Some sc \<Rightarrow> sc
                     | None \<Rightarrow> sentimentScore currentExtraction),
                  keyQuotes =
                    (case keyQuotes_opt ex of
                       Some qs \<Rightarrow> keyQuotes currentExtraction @ qs
                     | None \<Rightarrow> keyQuotes currentExtraction),
                  keywordTags =
                    (case keywords_opt ex of
                       Some ks \<Rightarrow> uniq (keywordTags currentExtraction @ ks)
                     | None \<Rightarrow> keywordTags currentExtraction)\<rparr>
           in st\<lparr>currentCall := Some (cur\<lparr>c_extraction := newExtraction\<rparr>)\<rparr>))"

definition updateCallDuration :: "nat \<Rightarrow> CallState \<Rightarrow> CallState" where
  "updateCallDuration duration st =
     (case currentCall st of
        None \<Rightarrow> st\<lparr>currentCall := None\<rparr>
      | Some cur \<Rightarrow> st\<lparr>currentCall := Some (cur\<lparr>c_duration := duration\<rparr>)\<rparr>)"

text \<open>A list of partial extractions applied one after the other.\<close>

definition applyAll :: "PartialExtraction list \<Rightarrow> CallState \<Rightarrow> CallState" where
  "applyAll xs st = foldl (\<lambda>s x. updateExtraction x s) st xs"


section \<open>The AI service (geminiService.ts): coaching suggestions\<close>

datatype SuggestionType =
  de_escalation | empathy | objection_handling | closing | rapport | verification | general

datatype Priority = urgent | important | normal

datatype Language = en_KE | sw_KE

text \<open>
  A coaching suggestion. Its display texts (the titles, the description and the suggested
  phrases in both languages), which no code path reads, are left out.
\<close>

record CoachingSuggestion =
  sg_id :: string
  sg_type :: SuggestionType
  sg_priority :: Priority

record ConversationContext =
  ctx_customerName :: string
  ctx_debtAmount :: number
  ctx_transcript :: string
  ctx_lastStatement :: string
  ctx_detectedSentiment :: Sentiment
  ctx_language :: Language

text \<open>The module-level cache: \<open>lastAnalyzedLength\<close>, \<open>lastSuggestions\<close>, \<open>isProcessing\<close>.\<close>

record coachingCache =
  lastAnalyzedLength :: nat
  lastSuggestions :: "CoachingSuggestion list"
  isProcessing :: bool

definition emptyCache :: coachingCache where
  "emptyCache = \<lparr>lastAnalyzedLength = 0, lastSuggestions = [], isProcessing = False\<rparr>"

text \<open>
  What \<open>callGeminiAPI\<close> followed by the decoding of its answer comes to, for a coaching
  request: a failure, or the decoded list of suggestions.
\<close>

datatype coachingReply =
    CoachingFailed
  | CoachingParsed "CoachingSuggestion list"

text \<open>\<open>/a|b|c/.test(s)\<close> for literal alternatives.\<close>

definition testAny :: "string list \<Rightarrow> string \<Rightarrow> bool" where
  "testAny alts s = list_ex (\<lambda>a. str_includes s a) alts"

definition getFallbackSuggestions :: "ConversationContext \<Rightarrow> CoachingSuggestion list" where
  "getFallbackSuggestions context =
     (let lowerTranscript = toLowerCase (ctx_transcript context);
          suggestions =
            (if ctx_detectedSentiment context = negative
                \<or> testAny [''angry'', ''frustrated'', ''upset'', ''ridiculous'', ''terrible'',
                            ''hate'', ''hasira'', ''chuki''] lowerTranscript
             then [\<lparr>sg_id = ''fallback-deescalate'', sg_type = de_escalation,
                     sg_priority = urgent\<rparr>]
             else [])
            @ (if testAny [''no money'', ''can'' @ [CHR 0x27] @ ''t afford'', ''struggling'',
                           ''broke'', ''sina pesa'', ''hali ngumu'', ''shida''] lowerTranscript
               then [\<lparr>sg_id = ''fallback-hardship'', sg_type = empathy,
                       sg_priority = important\<rparr>]
               else [])
            @ (if testAny [''lost job'', ''no job'', ''fired'', ''unemployed'', ''sina kazi'',
                           ''nimefukuzwa'', ''kupoteza kazi''] lowerTranscript
               then [\<lparr>sg_id = ''fallback-jobloss'', sg_type = empathy,
                       sg_priority = important\<rparr>]
               else [])
            @ (if testAny [''will pay'', [CHR ''i'', CHR 0x27] @ ''ll pay'', ''promise'',
                           ''nitalipa'', ''nitakulipa'', ''ahadi'', ''nakubali''] lowerTranscript
               then [\<lparr>sg_id = ''fallback-closing'', sg_type = closing,
                       sg_priority = important\<rparr>]
               else [])
            @ (if testAny [''m-pesa'', ''mpesa'', ''lipa'', ''transfer'', ''paybill'']
                    lowerTranscript
               then [\<lparr>sg_id = ''fallback-mpesa'', sg_type = verification,
                       sg_priority = normal\<rparr>]
               else [])
      in if suggestions = []
         then [\<lparr>sg_id = ''fallback-default'', sg_type = rapport, sg_priority = normal\<rparr>]
         else suggestions)"

text \<open>
  \<open>getAICoachingSuggestions\<close> up to its \<open>await\<close>: either it returns at once (\<open>Some\<close> the
  list), or it sets \<open>isProcessing\<close> and calls the remote service (\<open>None\<close>).
\<close>

definition coachingBegin ::
    "ConversationContext \<Rightarrow> coachingCache \<Rightarrow> CoachingSuggestion list option \<times> coachingCache" where
  "coachingBegin context cache =
     (if isProcessing cache then (Some (lastSuggestions cache), cache)
      else if length (ctx_transcript context) < 15 then (Some [], cache)
      else if int (length (ctx_transcript context)) - int (lastAnalyzedLength cache) < 60
      then (Some (lastSuggestions cache), cache)
      else (None, cache\<lparr>isProcessing := True\<rparr>))"

text \<open>The rest of it, once the remote call has settled, on the cache as it is then.\<close>

definition coachingSettle ::
    "coachingReply \<Rightarrow> ConversationContext \<Rightarrow> coachingCache
       \<Rightarrow> CoachingSuggestion list \<times> coachingCache" where
  "coachingSettle reply context cache =
     (case reply of
        CoachingParsed suggestions \<Rightarrow>
          (suggestions,
           cache\<lparr>lastAnalyzedLength := length (ctx_transcript context),
                 lastSuggestions := suggestions, isProcessing := False\<rparr>)
      | CoachingFailed \<Rightarrow>
          (getFallbackSuggestions context,
           cache\<lparr>isProcessing := False, lastSuggestions := getFallbackSuggestions context,
                 lastAnalyzedLength := length (ctx_transcript context)\<rparr>))"

text \<open>
  One call of \<open>getAICoachingSuggestions\<close> run to its end with nothing in between: the list
  it returns, the cache it leaves, and whether the remote service was called.
\<close>

definition getAICoachingSuggestions ::
    "coachingReply \<Rightarrow> ConversationContext \<Rightarrow> coachingCache
       \<Rightarrow> CoachingSuggestion list \<times> coachingCache \<times> bool" where
  "getAICoachingSuggestions reply context cache =
     (case coachingBegin context cache of
        (Some suggestions, cache') \<Rightarrow> (suggestions, cache', False)
      | (None, cache') \<Rightarrow>
          (fst (coachingSettle reply context cache'), snd (coachingSettle reply context cache'),
           True))"

definition resetCoachingCache :: "coachingCache \<Rightarrow> coachingCache" where
  "resetCoachingCache cache = \<lparr>lastAnalyzedLength = 0, lastSuggestions = [], isProcessing = False\<rparr>"

section \<open>The coaching panel (AgentCoaching.tsx)\<close>

record AgentCoachingProps =
  isActive :: bool
  transcript :: string
  sentimentProp :: rat
  customerName :: string
  debtAmount :: number
  language :: Language

text \<open>The state of the component that the fetch reads and writes.\<close>

record AgentCoachingState =
  suggestions :: "CoachingSuggestion list"
  lastProcessedLength :: nat
  isLoading :: bool

text \<open>\<open>transcript.split(/[.!?]/).filter(Boolean).pop()?.trim() || ''\<close>.\<close>

definition lastStatementOf :: "string \<Rightarrow> string" where
  "lastStatementOf t =
     (case filter (\<lambda>w. w \<noteq> []) (splitOn ''.!?'' t) of
        [] \<Rightarrow> []
      | w # ws \<Rightarrow> trim (last (w # ws)))"

definition contextOf :: "AgentCoachingProps \<Rightarrow> ConversationContext" where
  "contextOf props =
     \<lparr>ctx_customerName = customerName props, ctx_debtAmount = debtAmount props,
      ctx_transcript = transcript props, ctx_lastStatement = lastStatementOf (transcript props),
      ctx_detectedSentiment =
        (if sentimentProp props < 4 / 10 then negative
         else if sentimentProp props > 6 / 10 then positive
         else neutral),
      ctx_language = language props\<rparr>"

text \<open>
  \<open>fetchSuggestions\<close>, one trigger run to its end: the state of the component, the cache of
  the service, and whether the remote service was called.
\<close>

definition fetchSuggestions ::
    "coachingReply \<Rightarrow> AgentCoachingProps \<Rightarrow> AgentCoachingState \<times> coachingCache
       \<Rightarrow> AgentCoachingState \<times> coachingCache \<times> bool" where
  "fetchSuggestions reply props sc =
     (let panel = fst sc; cache = snd sc
      in if \<not> isActive props \<or> length (transcript props) < 20 then (panel, cache, False)
         else if int (length (transcript props)) - int (lastProcessedLength panel) < 50
         then (panel, cache, False)
         else (case getAICoachingSuggestions reply (contextOf props) cache of
                 (aiSuggestions, cache', called) \<Rightarrow>
                   ((if aiSuggestions \<noteq> []
                     then panel\<lparr>suggestions := aiSuggestions,
                               lastProcessedLength := length (transcript props)\<rparr>
                     else panel)\<lparr>isLoading := False\<rparr>,
                    cache', called)))"

text \<open>The effect that runs when the session is no longer active.\<close>

definition resetOnInactive ::
    "AgentCoachingProps \<Rightarrow> AgentCoachingState \<times> coachingCache
       \<Rightarrow> AgentCoachingState \<times> coachingCache" where
  "resetOnInactive props sc =
     (if \<not> isActive props
      then ((fst sc)\<lparr>suggestions := [], lastProcessedLength := 0\<rparr>, resetCoachingCache (snd sc))
      else sc)"


section \<open>Notions used in the statements\<close>

text \<open>A pattern that consumes at least one code unit on every path.\<close>

fun consuming :: "rx \<Rightarrow> bool" where
  "consuming (Cls cs) = True"
| "consuming (Seq a b) = (consuming a \<or> consuming b)"
| "consuming (Alt a b) = (consuming a \<and> consuming b)"
| "consuming (Opt a) = False"
| "consuming (Star a) = False"
| "consuming WordB = False"

text \<open>
  The sum of the amount fields, added from left to right in the arithmetic of the host,
  a missing amount counting as \<open>0\<close> and every amount that is there counting as it is.
\<close>

definition sumOfAmountFields :: "host \<Rightarrow> Promise list \<Rightarrow> number" where
  "sumOfAmountFields h ps =
     foldl (\<lambda>sum p. num_add h sum (case p_amount p of None \<Rightarrow> Num 0 | Some a \<Rightarrow> a))
       (Num 0) ps"

text \<open>The same sum with an amount \<open>NaN\<close> counting as \<open>0\<close> too.\<close>

definition sumOfNumericAmounts :: "host \<Rightarrow> Promise list \<Rightarrow> number" where
  "sumOfNumericAmounts h ps =
     foldl (\<lambda>sum p. num_add h sum
                       (case p_amount p of
                          None \<Rightarrow> Num 0
                        | Some a \<Rightarrow> if a = NaN then Num 0 else a))
       (Num 0) ps"


section \<open>Example inputs\<close>

definition exampleDraws :: draws where
  "exampleDraws =
     \<lparr>promiseId = ''id-p'', promiseTime = 1000, objectionId = ''id-o'', objectionTime = 1001,
      agreementId = ''id-a'', agreementTime = 1002\<rparr>"

definition promiseText :: string where
  "promiseText = ''I promise I will pay KES 5,000 by Friday''"

definition lostJobText :: string where
  "lostJobText = ''I lost my job and can'' @ [CHR 0x27] @ ''t afford this''"

text \<open>
  A host for the examples. Its rounding leaves every number as it is, which is what the
  rounding of doubles does on the numbers the examples add (integers of a few digits).
\<close>

definition exampleHost :: host where
  "exampleHost =
     \<lparr>numberFormat = (\<lambda>n. ''<n>''), toLocaleString = (\<lambda>n. ''<n>''),
      roundToDouble = (\<lambda>r. Num r)\<rparr>"

definition exampleCustomer :: Customer where
  "exampleCustomer =
     \<lparr>cust_name = ''Amina'', cust_phone = ''0700000000'', cust_accountNumber = ''ACC-1'',
      cust_debtAmount = Num 12000\<rparr>"

definition otherCustomer :: Customer where
  "otherCustomer =
     \<lparr>cust_name = ''Baraka'', cust_phone = ''0711111111'', cust_accountNumber = ''ACC-2'',
      cust_debtAmount = Num 800\<rparr>"

definition exampleEndDraws :: endDraws where
  "exampleEndDraws = \<lparr>endedNow = 5000, summaryId = ''id-s'', summaryNow = 5001\<rparr>"

text \<open>A store in which a call with the first customer is active.\<close>

definition activeState :: CallState where
  "activeState = startCall ''call-1'' 1000 exampleCustomer initialState"

text \<open>A promise with a given amount, and a partial extraction that carries given promises.\<close>

definition promiseWith :: "number option \<Rightarrow> Promise" where
  "promiseWith a =
     \<lparr>p_id = ''id-p'', p_amount = a, p_dueDate = None, p_description = ''I will pay'',
      p_timestamp = 1000\<rparr>"

definition partialWith :: "Promise list \<Rightarrow> PartialExtraction" where
  "partialWith ps =
     \<lparr>promises_opt = Some ps, objections_opt = None, agreements_opt = None,
      sentiment_opt = Some neutral, sentimentScore_opt = Some 50, keyQuotes_opt = None,
      keywords_opt = Some []\<rparr>"

text \<open>A chunk with a promise keyword and the amount match \<open>KES ,\<close>, which holds no digit.\<close>

definition noDigitText :: string where
  "noDigitText = ''I will pay KES , soon''"

text \<open>The promise that \<open>analyzeText\<close> builds from it: its amount is \<open>NaN\<close>.\<close>

definition noDigitPromise :: Promise where
  "noDigitPromise =
     \<lparr>p_id = ''id-p'', p_amount = Some NaN, p_dueDate = None, p_description = noDigitText,
      p_timestamp = 1000\<rparr>"

definition coachingProps :: "string \<Rightarrow> AgentCoachingProps" where
  "coachingProps t =
     \<lparr>isActive = True, transcript = t, sentimentProp = 50, customerName = ''Amina'',
      debtAmount = Num 12000, language = en_KE\<rparr>"

definition idleComponent :: AgentCoachingState where
  "idleComponent = \<lparr>suggestions = [], lastProcessedLength = 0, isLoading = False\<rparr>"

definition sampleSuggestion :: CoachingSuggestion where
  "sampleSuggestion = \<lparr>sg_id = ''ai-1-0'', sg_type = empathy, sg_priority = important\<rparr>"

text \<open>An active call that has collected this promise.\<close>

definition nanCall :: Call where
  "nanCall =
     \<lparr>c_id = ''call-1'', c_customer = exampleCustomer, c_startedAt = 1000, c_endedAt = None,
      c_duration = 42, c_status = active, c_transcript = [],
      c_extraction = initialExtraction\<lparr>promises := [noDigitPromise]\<rparr>,
      c_summary = None, c_isMuted = False\<rparr>"

definition nanState :: CallState where
  "nanState = \<lparr>currentCall = Some nanCall, callHistory = [], theme = light\<rparr>"

text \<open>
  An active call with three promises: one of 5000, one without amount, and the one whose
  amount is \<open>NaN\<close>.
\<close>

definition mixedCall :: Call where
  "mixedCall =
     \<lparr>c_id = ''call-1'', c_customer = exampleCustomer, c_startedAt = 1000, c_endedAt = None,
      c_duration = 42, c_status = active, c_transcript = [],
      c_extraction =
        initialExtraction\<lparr>promises := [promiseWith (Some (Num 5000)), promiseWith None,
                                        noDigitPromise]\<rparr>,
      c_summary = None, c_isMuted = False\<rparr>"

definition mixedState :: CallState where
  "mixedState = \<lparr>currentCall = Some mixedCall, callHistory = [], theme = light\<rparr>"

text \<open>
  Two partial extractions with the same keyword: the first with a promise and a negative
  sentiment, the second with two promises and no sentiment.
\<close>

definition firstPartial :: PartialExtraction where
  "firstPartial =
     \<lparr>promises_opt = Some [promiseWith (Some (Num 5000))], objections_opt = None,
      agreements_opt = None, sentiment_opt = Some negative, sentimentScore_opt = Some 5,
      keyQuotes_opt = None, keywords_opt = Some [''KES 5'']\<rparr>"

definition secondPartial :: PartialExtraction where
  "secondPartial =
     \<lparr>promises_opt = Some [promiseWith None, promiseWith (Some (Num 5000))],
      objections_opt = None, agreements_opt = None, sentiment_opt = None,
      sentimentScore_opt = None, keyQuotes_opt = None, keywords_opt = Some [''KES 5'']\<rparr>"

text \<open>A transcript of 72 code units, and the same with a few more.\<close>

definition longTranscript :: string where
  "longTranscript = ''Hello, I am calling about the outstanding balance on your account today.''"

definition longerTranscript :: string where
  "longerTranscript = longTranscript @ '' Yes, go on.''"


section \<open>Facts about the matcher\<close>

lemma star_le: "q \<in> set (star n f p) \<Longrightarrow> length (snd q) \<le> length (snd p)"
proof (induction n arbitrary: p)
  case 0
  then show ?case by simp
next
  case (Suc n)
  then show ?case by (fastforce split: if_splits)
qed

lemma rmatch_le: "q \<in> set (rmatch re p) \<Longrightarrow> length (snd q) \<le> length (snd p)"
proof (induction re arbitrary: p q)
  case (Cls cs)
  then show ?case by (cases "snd p") (auto split: if_splits)
next
  case (Seq a b)
  from Seq.prems obtain m where m: "m \<in> set (rmatch a p)" "q \<in> set (rmatch b m)"
    by auto
  from Seq.IH(1) [OF m(1)] Seq.IH(2) [OF m(2)] show ?case by simp
next
  case (Alt a b)
  from Alt.prems have "q \<in> set (rmatch a p) \<or> q \<in> set (rmatch b p)" by simp
  with Alt.IH show ?case by blast
next
  case (Opt a)
  from Opt.prems have "q \<in> set (rmatch a p) \<or> q = p" by auto
  then show ?case
  proof
    assume "q \<in> set (rmatch a p)"
    from Opt.IH [OF this] show ?thesis .
  next
    assume "q = p"
    then show ?thesis by simp
  qed
next
  case (Star a)
  then show ?case using star_le by simp
next
  case WordB
  then show ?case by (simp split: if_splits)
qed

lemma rmatch_lt:
  "consuming re \<Longrightarrow> q \<in> set (rmatch re p) \<Longrightarrow> length (snd q) < length (snd p)"
proof (induction re arbitrary: p q)
  case (Cls cs)
  then show ?case by (cases "snd p") (auto split: if_splits)
next
  case (Seq a b)
  from Seq.prems(2) obtain m where m: "m \<in> set (rmatch a p)" "q \<in> set (rmatch b m)"
    by auto
  have le: "length (snd m) \<le> length (snd p)" "length (snd q) \<le> length (snd m)"
    using m rmatch_le by blast+
  from Seq.prems(1) have "consuming a \<or> consuming b" by simp
  then show ?case
  proof
    assume "consuming a"
    from Seq.IH(1) [OF this m(1)] le show ?thesis by simp
  next
    assume "consuming b"
    from Seq.IH(2) [OF this m(2)] le show ?thesis by simp
  qed
next
  case (Alt a b)
  from Alt.prems have c: "consuming a" "consuming b"
    and "q \<in> set (rmatch a p) \<or> q \<in> set (rmatch b p)" by simp_all
  with Alt.IH show ?case by blast
qed simp_all

lemma scan_nonempty:
  "consuming re \<Longrightarrow> m \<in> set (scan re p) \<Longrightarrow> m \<noteq> []"
proof (induction re p rule: scan.induct)
  case (1 re b r)
  show ?case
  proof (cases "rmatch re (b, r)")
    case Nil
    show ?thesis
    proof (cases r)
      assume "r = []"
      with Nil "1.prems"(2) have "m \<in> set []"
        by (simp add: scan.simps [of re b "[]"])
      then show ?thesis by simp
    next
      fix c r' assume r: "r = c # r'"
      with Nil "1.prems"(2) have "m \<in> set (scan re (c # b, r'))"
        by (simp add: scan.simps [of re b "c # r'"])
      with "1.IH"(1) [OF Nil r] "1.prems"(1) show ?thesis by simp
    qed
  next
    case (Cons q qs)
    obtain b' r' where q: "q = (b', r')" by (cases q)
    have "q \<in> set (rmatch re (b, r))" using Cons by simp
    with "1.prems"(1) have lt: "length r' < length r" using rmatch_lt q by fastforce
    from "1.prems"(2) Cons q lt
    have "m = take (length r - length r') r \<or> m \<in> set (scan re (b', r'))"
      by (simp add: scan.simps [of re b r])
    then show ?thesis
    proof
      assume "m = take (length r - length r') r"
      with lt show ?thesis by auto
    next
      assume "m \<in> set (scan re (b', r'))"
      with "1.IH"(2) Cons q lt "1.prems"(1) show ?thesis by simp
    qed
  qed
qed

lemma match_g_nonempty:
  assumes "consuming re" and "match_g re s = Some ms"
  shows "ms \<noteq> [] \<and> hd ms \<noteq> []"
proof -
  from assms(2) have ms: "ms = scan re ([], s)" and ne: "ms \<noteq> []"
    by (auto simp: match_g_def split: list.splits)
  from ne have "hd ms \<in> set (scan re ([], s))" using ms by simp
  from scan_nonempty [OF assms(1) this] ne show ?thesis by simp
qed

lemma consuming_AMOUNT: "consuming AMOUNT_REGEX"
  by (simp add: AMOUNT_REGEX_def Plus_def rx_d_def rx_s_def)

lemma consuming_DATE: "consuming DATE_REGEX"
  by (simp add: DATE_REGEX_def Plus_def rx_d_def rx_s_def rx_w_def)

section \<open>Facts about analyzeText\<close>

lemma extractedAmount_Some:
  "match_g AMOUNT_REGEX text = Some ms \<Longrightarrow>
   extractedAmount h text = Some (parseFloat h (stripCurrency (hd ms)))"
  using match_g_nonempty [OF consuming_AMOUNT, of "text" ms]
  by (auto simp: extractedAmount_def amountsOf_def split: list.splits)

lemma extractedAmount_None:
  "match_g AMOUNT_REGEX text = None \<Longrightarrow> extractedAmount h text = None"
  by (simp add: extractedAmount_def amountsOf_def)

lemma dueDateOf_Some:
  "match_g DATE_REGEX text = Some ms \<Longrightarrow> dueDateOf text = Some (hd ms)"
  using match_g_nonempty [OF consuming_DATE, of "text" ms]
  by (auto simp: dueDateOf_def split: list.splits)

lemma dueDateOf_None:
  "match_g DATE_REGEX text = None \<Longrightarrow> dueDateOf text = None"
  by (simp add: dueDateOf_def)

lemma find_in_set: "List.find P xs = Some x \<Longrightarrow> x \<in> set xs"
  by (induction xs) (auto split: if_splits)

lemma objection_keywords_nonempty: "[] \<notin> set OBJECTION_KEYWORDS"
  by (simp add: OBJECTION_KEYWORDS_def)

lemma objectionKeyword_found:
  assumes "list_ex (\<lambda>kw. str_includes (toLowerCase text) kw) OBJECTION_KEYWORDS"
  shows "objectionKeyword text \<noteq> None \<and> objectionKeyword text \<noteq> Some []"
proof
  from assms show "objectionKeyword text \<noteq> None"
    by (auto simp: objectionKeyword_def find_None_iff list_ex_iff)
  show "objectionKeyword text \<noteq> Some []"
    using find_in_set [of _ OBJECTION_KEYWORDS "[]"] objection_keywords_nonempty
    by (auto simp: objectionKeyword_def)
qed

lemma sentimentOf_bounds: "5 \<le> snd (sentimentOf tp tn) \<and> snd (sentimentOf tp tn) \<le> 95"
  by (simp add: sentimentOf_def)

lemma sentimentOf_zero: "sentimentOf 0 0 = (neutral, 50)"
  by (simp add: sentimentOf_def)

lemma analyzeText_sentiment:
  "sentiment_opt (extraction (analyzeText h d text full))
     = Some (fst (sentimentOf (totalPositive text full) (totalNegative text full)))"
  by (simp add: analyzeText_def Let_def)

lemma analyzeText_score:
  "sentimentScore_opt (extraction (analyzeText h d text full))
     = Some (snd (sentimentOf (totalPositive text full) (totalNegative text full)))"
  by (simp add: analyzeText_def Let_def)

text \<open>A chunk the code can get for which the promise it builds has the amount \<open>NaN\<close>.\<close>

lemma analyzeText_NaN_amount:
  "promises_opt (extraction (analyzeText exampleHost exampleDraws noDigitText noDigitText))
     = Some [noDigitPromise]"
proof -
  have hp: "hasPromise noDigitText"
    by code_simp
  have am: "amountsOf noDigitText = Some [''KES ,'']"
    by code_simp
  have sc: "stripCurrency ''KES ,'' = []"
    by code_simp
  have pf: "parseFloat exampleHost [] = NaN"
    by (simp add: parseFloat_def)
  have dd: "dueDateOf noDigitText = None"
    by code_simp
  have tk: "take 100 noDigitText = noDigitText"
    by (simp add: noDigitText_def)
  from am sc pf have ea: "extractedAmount exampleHost noDigitText = Some NaN"
    by (simp add: extractedAmount_def)
  from hp ea dd tk show ?thesis
    by (simp add: analyzeText_def Let_def exampleDraws_def noDigitPromise_def)
qed


section \<open>Facts about the store\<close>

lemma uniq_aux:
  "set (foldl (\<lambda>acc x. if x \<in> set acc then acc else acc @ [x]) acc xs) = set acc \<union> set xs"
  by (induction xs arbitrary: acc) auto

lemma set_uniq: "set (uniq xs) = set xs"
  by (simp add: uniq_def uniq_aux)

lemma updateExtraction_Some:
  "currentCall st = Some c \<Longrightarrow>
   \<exists>c'. currentCall (updateExtraction x st) = Some c'
      \<and> promises (c_extraction c')
          = promises (c_extraction c) @ (case promises_opt x of None \<Rightarrow> [] | Some l \<Rightarrow> l)
      \<and> objections (c_extraction c')
          = objections (c_extraction c) @ (case objections_opt x of None \<Rightarrow> [] | Some l \<Rightarrow> l)
      \<and> agreements (c_extraction c')
          = agreements (c_extraction c) @ (case agreements_opt x of None \<Rightarrow> [] | Some l \<Rightarrow> l)
      \<and> keyQuotes (c_extraction c')
          = keyQuotes (c_extraction c) @ (case keyQuotes_opt x of None \<Rightarrow> [] | Some l \<Rightarrow> l)
      \<and> set (keywordTags (c_extraction c'))
          = set (keywordTags (c_extraction c))
            \<union> (case keywords_opt x of None \<Rightarrow> {} | Some l \<Rightarrow> set l)
      \<and> sentiment (c_extraction c')
          = (case sentiment_opt x of None \<Rightarrow> sentiment (c_extraction c) | Some s \<Rightarrow> s)
      \<and> sentimentScore (c_extraction c')
          = (case sentimentScore_opt x of
               None \<Rightarrow> sentimentScore (c_extraction c)
             | Some s \<Rightarrow> s)"
  by (simp add: updateExtraction_def Let_def set_uniq split: option.split)

lemma applyAll_Nil: "applyAll [] st = st"
  by (simp add: applyAll_def)

lemma applyAll_Cons: "applyAll (x # xs) st = applyAll xs (updateExtraction x st)"
  by (simp add: applyAll_def)

lemma applyAll_snoc: "applyAll (xs @ [x]) st = updateExtraction x (applyAll xs st)"
  by (simp add: applyAll_def)

lemma applyAll_lists:
  assumes "currentCall st = Some c"
  shows "\<exists>c'. currentCall (applyAll xs st) = Some c'
      \<and> promises (c_extraction c')
          = promises (c_extraction c)
            @ concat (map (\<lambda>x. case promises_opt x of None \<Rightarrow> [] | Some l \<Rightarrow> l) xs)
      \<and> objections (c_extraction c')
          = objections (c_extraction c)
            @ concat (map (\<lambda>x. case objections_opt x of None \<Rightarrow> [] | Some l \<Rightarrow> l) xs)
      \<and> agreements (c_extraction c')
          = agreements (c_extraction c)
            @ concat (map (\<lambda>x. case agreements_opt x of None \<Rightarrow> [] | Some l \<Rightarrow> l) xs)
      \<and> keyQuotes (c_extraction c')
          = keyQuotes (c_extraction c)
            @ concat (map (\<lambda>x. case keyQuotes_opt x of None \<Rightarrow> [] | Some l \<Rightarrow> l) xs)
      \<and> set (keywordTags (c_extraction c'))
          = set (keywordTags (c_extraction c))
            \<union> (\<Union>x \<in> set xs. case keywords_opt x of None \<Rightarrow> {} | Some l \<Rightarrow> set l)
      \<and> (\<forall>s sc. xs \<noteq> [] \<and> sentiment_opt (last xs) = Some s
                  \<and> sentimentScore_opt (last xs) = Some sc
             \<longrightarrow> sentiment (c_extraction c') = s \<and> sentimentScore (c_extraction c') = sc)
      \<and> length (promises (c_extraction c'))
          = length (promises (c_extraction c))
            + sum_list (map (\<lambda>x. case promises_opt x of None \<Rightarrow> 0 | Some l \<Rightarrow> length l) xs)"
proof (induction xs rule: rev_induct)
  case Nil
  with assms show ?case by (simp add: applyAll_Nil)
next
  case (snoc x xs)
  then obtain c1 where c1: "currentCall (applyAll xs st) = Some c1"
    and p: "promises (c_extraction c1) = promises (c_extraction c)
            @ concat (map (\<lambda>x. case promises_opt x of None \<Rightarrow> [] | Some l \<Rightarrow> l) xs)"
    and ob: "objections (c_extraction c1) = objections (c_extraction c)
            @ concat (map (\<lambda>x. case objections_opt x of None \<Rightarrow> [] | Some l \<Rightarrow> l) xs)"
    and ag: "agreements (c_extraction c1) = agreements (c_extraction c)
            @ concat (map (\<lambda>x. case agreements_opt x of None \<Rightarrow> [] | Some l \<Rightarrow> l) xs)"
    and kq: "keyQuotes (c_extraction c1) = keyQuotes (c_extraction c)
            @ concat (map (\<lambda>x. case keyQuotes_opt x of None \<Rightarrow> [] | Some l \<Rightarrow> l) xs)"
    and kw: "set (keywordTags (c_extraction c1)) = set (keywordTags (c_extraction c))
            \<union> (\<Union>x \<in> set xs. case keywords_opt x of None \<Rightarrow> {} | Some l \<Rightarrow> set l)"
    and len: "length (promises (c_extraction c1)) = length (promises (c_extraction c))
            + sum_list (map (\<lambda>x. case promises_opt x of None \<Rightarrow> 0 | Some l \<Rightarrow> length l) xs)"
    by blast
  from updateExtraction_Some [OF c1, of x] obtain c2 where
    c2: "currentCall (updateExtraction x (applyAll xs st)) = Some c2"
    and p2: "promises (c_extraction c2)
              = promises (c_extraction c1) @ (case promises_opt x of None \<Rightarrow> [] | Some l \<Rightarrow> l)"
    and ob2: "objections (c_extraction c2)
              = objections (c_extraction c1)
                @ (case objections_opt x of None \<Rightarrow> [] | Some l \<Rightarrow> l)"
    and ag2: "agreements (c_extraction c2)
              = agreements (c_extraction c1)
                @ (case agreements_opt x of None \<Rightarrow> [] | Some l \<Rightarrow> l)"
    and kq2: "keyQuotes (c_extraction c2)
              = keyQuotes (c_extraction c1) @ (case keyQuotes_opt x of None \<Rightarrow> [] | Some l \<Rightarrow> l)"
    and kw2: "set (keywordTags (c_extraction c2))
              = set (keywordTags (c_extraction c1))
                \<union> (case keywords_opt x of None \<Rightarrow> {} | Some l \<Rightarrow> set l)"
    and s2: "sentiment (c_extraction c2)
              = (case sentiment_opt x of None \<Rightarrow> sentiment (c_extraction c1) | Some s \<Rightarrow> s)"
    and sc2: "sentimentScore (c_extraction c2)
              = (case sentimentScore_opt x of
                   None \<Rightarrow> sentimentScore (c_extraction c1)
                 | Some s \<Rightarrow> s)"
    by blast
  have "currentCall (applyAll (xs @ [x]) st) = Some c2"
    using c2 by (simp add: applyAll_snoc)
  moreover have "promises (c_extraction c2) = promises (c_extraction c)
            @ concat (map (\<lambda>x. case promises_opt x of None \<Rightarrow> [] | Some l \<Rightarrow> l) (xs @ [x]))"
    using p p2 by simp
  moreover have "objections (c_extraction c2) = objections (c_extraction c)
            @ concat (map (\<lambda>x. case objections_opt x of None \<Rightarrow> [] | Some l \<Rightarrow> l) (xs @ [x]))"
    using ob ob2 by simp
  moreover have "agreements (c_extraction c2) = agreements (c_extraction c)
            @ concat (map (\<lambda>x. case agreements_opt x of None \<Rightarrow> [] | Some l \<Rightarrow> l) (xs @ [x]))"
    using ag ag2 by simp
  moreover have "keyQuotes (c_extraction c2) = keyQuotes (c_extraction c)
            @ concat (map (\<lambda>x. case keyQuotes_opt x of None \<Rightarrow> [] | Some l \<Rightarrow> l) (xs @ [x]))"
    using kq kq2 by simp
  moreover have "set (keywordTags (c_extraction c2)) = set (keywordTags (c_extraction c))
            \<union> (\<Union>x \<in> set (xs @ [x]). case keywords_opt x of None \<Rightarrow> {} | Some l \<Rightarrow> set l)"
    using kw kw2 by auto
  moreover have "\<forall>s sc. xs @ [x] \<noteq> [] \<and> sentiment_opt (last (xs @ [x])) = Some s
                  \<and> sentimentScore_opt (last (xs @ [x])) = Some sc
             \<longrightarrow> sentiment (c_extraction c2) = s \<and> sentimentScore (c_extraction c2) = sc"
    using s2 sc2 by simp
  moreover have "length (promises (c_extraction c2)) = length (promises (c_extraction c))
            + sum_list (map (\<lambda>x. case promises_opt x of None \<Rightarrow> 0 | Some l \<Rightarrow> length l)
                          (xs @ [x]))"
    using len p2 by (simp split: option.split)
  ultimately show ?case by blast
qed

lemma uniq_snoc:
  "uniq (xs @ [x]) = (if x \<in> set (uniq xs) then uniq xs else uniq xs @ [x])"
  by (simp add: uniq_def)

lemma uniq_first_occurrences: "uniq xs = rev (remdups (rev xs))"
proof (induction xs rule: rev_induct)
  case Nil
  then show ?case by (simp add: uniq_def)
next
  case (snoc x xs)
  have "set (uniq xs) = set xs" by (rule set_uniq)
  with snoc show ?case by (simp add: uniq_snoc)
qed

lemma distinct_uniq: "distinct (uniq xs)"
  by (simp add: uniq_first_occurrences)

lemma uniq_distinct: "distinct xs \<Longrightarrow> uniq xs = xs"
  by (simp add: uniq_first_occurrences distinct_remdups_id)

lemma uniq_uniq_append: "uniq (uniq xs @ ys) = uniq (xs @ ys)"
proof (induction ys rule: rev_induct)
  case Nil
  show ?case by (simp add: uniq_distinct distinct_uniq)
next
  case (snoc y ys)
  have "uniq (uniq xs @ ys @ [y]) = uniq ((uniq xs @ ys) @ [y])" by simp
  also have "\<dots> = (if y \<in> set (uniq (uniq xs @ ys)) then uniq (uniq xs @ ys)
                    else uniq (uniq xs @ ys) @ [y])"
    by (rule uniq_snoc)
  also have "\<dots> = (if y \<in> set (uniq (xs @ ys)) then uniq (xs @ ys) else uniq (xs @ ys) @ [y])"
    using snoc by simp
  also have "\<dots> = uniq ((xs @ ys) @ [y])"
    by (rule uniq_snoc [symmetric])
  finally show ?case by simp
qed

lemma map_filter_snoc:
  "List.map_filter f (xs @ [x])
     = List.map_filter f xs @ (case f x of None \<Rightarrow> [] | Some v \<Rightarrow> [v])"
  by (induction xs) (simp_all add: List.map_filter_simps split: option.split)

lemma updateExtraction_keywords:
  "currentCall st = Some c \<Longrightarrow>
   \<exists>c'. currentCall (updateExtraction x st) = Some c'
      \<and> keywordTags (c_extraction c')
          = (case keywords_opt x of
               None \<Rightarrow> keywordTags (c_extraction c)
             | Some l \<Rightarrow> uniq (keywordTags (c_extraction c) @ l))"
  by (simp add: updateExtraction_def Let_def split: option.split)

lemma applyAll_keywords:
  assumes "currentCall st = Some c"
  shows "\<exists>c'. currentCall (applyAll xs st) = Some c'
      \<and> keywordTags (c_extraction c')
          = (if \<exists>x \<in> set xs. keywords_opt x \<noteq> None
             then uniq (keywordTags (c_extraction c)
                        @ concat (map (\<lambda>x. case keywords_opt x of None \<Rightarrow> [] | Some l \<Rightarrow> l) xs))
             else keywordTags (c_extraction c))"
proof (induction xs rule: rev_induct)
  case Nil
  with assms show ?case by (simp add: applyAll_Nil)
next
  case (snoc x xs)
  let ?kw = "\<lambda>x. case keywords_opt x of None \<Rightarrow> [] | Some l \<Rightarrow> l"
  from snoc obtain c1 where c1: "currentCall (applyAll xs st) = Some c1"
    and k1: "keywordTags (c_extraction c1)
          = (if \<exists>x \<in> set xs. keywords_opt x \<noteq> None
             then uniq (keywordTags (c_extraction c) @ concat (map ?kw xs))
             else keywordTags (c_extraction c))"
    by blast
  from updateExtraction_keywords [OF c1, of x] obtain c2 where
    c2: "currentCall (updateExtraction x (applyAll xs st)) = Some c2"
    and k2: "keywordTags (c_extraction c2)
          = (case keywords_opt x of
               None \<Rightarrow> keywordTags (c_extraction c1)
             | Some l \<Rightarrow> uniq (keywordTags (c_extraction c1) @ l))"
    by blast
  have none: "\<forall>x \<in> set xs. keywords_opt x = None \<Longrightarrow> concat (map ?kw xs) = []"
    by (induction xs) auto
  have "keywordTags (c_extraction c2)
          = (if \<exists>x \<in> set (xs @ [x]). keywords_opt x \<noteq> None
             then uniq (keywordTags (c_extraction c) @ concat (map ?kw (xs @ [x])))
             else keywordTags (c_extraction c))"
  proof (cases "keywords_opt x")
    case None
    with k1 k2 show ?thesis by simp
  next
    case (Some l)
    show ?thesis
    proof (cases "\<exists>x \<in> set xs. keywords_opt x \<noteq> None")
      case True
      with k1 k2 Some show ?thesis
        using uniq_uniq_append [of "keywordTags (c_extraction c) @ concat (map ?kw xs)" l]
        by simp
    next
      case False
      with k1 k2 Some show ?thesis by (simp add: none)
    qed
  qed
  with c2 show ?case by (simp add: applyAll_snoc)
qed

lemma updateExtraction_sentiment:
  "currentCall st = Some c \<Longrightarrow>
   \<exists>c'. currentCall (updateExtraction x st) = Some c'
      \<and> sentiment (c_extraction c')
          = (case sentiment_opt x of None \<Rightarrow> sentiment (c_extraction c) | Some s \<Rightarrow> s)
      \<and> sentimentScore (c_extraction c')
          = (case sentimentScore_opt x of
               None \<Rightarrow> sentimentScore (c_extraction c)
             | Some s \<Rightarrow> s)"
  by (simp add: updateExtraction_def Let_def split: option.split)

lemma applyAll_sentiment:
  assumes "currentCall st = Some c"
  shows "\<exists>c'. currentCall (applyAll xs st) = Some c'
      \<and> sentiment (c_extraction c')
          = last (sentiment (c_extraction c) # List.map_filter sentiment_opt xs)
      \<and> sentimentScore (c_extraction c')
          = last (sentimentScore (c_extraction c) # List.map_filter sentimentScore_opt xs)"
proof (induction xs rule: rev_induct)
  case Nil
  with assms show ?case by (simp add: applyAll_Nil List.map_filter_simps)
next
  case (snoc x xs)
  from snoc obtain c1 where c1: "currentCall (applyAll xs st) = Some c1"
    and s1: "sentiment (c_extraction c1)
          = last (sentiment (c_extraction c) # List.map_filter sentiment_opt xs)"
    and sc1: "sentimentScore (c_extraction c1)
          = last (sentimentScore (c_extraction c) # List.map_filter sentimentScore_opt xs)"
    by blast
  from updateExtraction_sentiment [OF c1, of x] obtain c2 where
    c2: "currentCall (updateExtraction x (applyAll xs st)) = Some c2"
    and s2: "sentiment (c_extraction c2)
          = (case sentiment_opt x of None \<Rightarrow> sentiment (c_extraction c1) | Some s \<Rightarrow> s)"
    and sc2: "sentimentScore (c_extraction c2)
          = (case sentimentScore_opt x of
               None \<Rightarrow> sentimentScore (c_extraction c1)
             | Some s \<Rightarrow> s)"
    by blast
  have "sentiment (c_extraction c2)
          = last (sentiment (c_extraction c) # List.map_filter sentiment_opt (xs @ [x]))"
    using s1 s2 by (simp add: map_filter_snoc split: option.split)
  moreover have "sentimentScore (c_extraction c2)
          = last (sentimentScore (c_extraction c)
                  # List.map_filter sentimentScore_opt (xs @ [x]))"
    using sc1 sc2 by (simp add: map_filter_snoc split: option.split)
  ultimately show ?case using c2 by (simp add: applyAll_snoc)
qed

lemma amountOrZero_numeric:
  "amountOrZero p
     = (case p_amount p of None \<Rightarrow> Num 0 | Some a \<Rightarrow> if a = NaN then Num 0 else a)"
proof (cases "p_amount p")
  case None
  then show ?thesis by (simp add: amountOrZero_def)
next
  case (Some a)
  then show ?thesis by (cases a) (simp_all add: amountOrZero_def)
qed

lemma totalAmountOf_sum: "totalAmountOf h ps = sumOfNumericAmounts h ps"
  by (simp add: totalAmountOf_def sumOfNumericAmounts_def amountOrZero_numeric)

lemma endCall_Some:
  assumes "currentCall st = Some c"
  shows "\<exists>item c'. callHistory (endCall d h s st) = item # callHistory st
           \<and> h_totalPromisedAmount item = totalAmountOf h (promises (c_extraction c))
           \<and> h_promisesCount item = length (promises (c_extraction c))
           \<and> currentCall (endCall d h s st) = Some c'
           \<and> c_status c' = completed
           \<and> c_extraction c' = c_extraction c"
  using assms by (simp add: endCall_def Let_def historyItemOf_def)

lemma endCallWithAI_Inr:
  assumes "currentCall st = Some c"
    and "endCallWithAI d d' h summarise later st \<noteq> endCall d' h None later"
  shows "\<exists>item c'. callHistory (endCallWithAI d d' h summarise later st)
                     = item # callHistory later
           \<and> h_totalPromisedAmount item = totalAmountOf h (promises (c_extraction c))
           \<and> h_promisesCount item = length (promises (c_extraction c))
           \<and> currentCall (endCallWithAI d d' h summarise later st) = Some c'
           \<and> c_status c' = completed
           \<and> c_extraction c' = c_extraction c"
  using assms
  by (auto simp: endCallWithAI_def Let_def historyItemOf_def split: sum.splits)

lemma endCallWithGemini_Some:
  assumes "currentCall st = Some c"
  shows "\<exists>item c'. callHistory (endCallWithGemini d d' h reply later st)
                     = item # callHistory later
           \<and> h_totalPromisedAmount item = totalAmountOf h (promises (c_extraction c))
           \<and> h_promisesCount item = length (promises (c_extraction c))
           \<and> currentCall (endCallWithGemini d d' h reply later st) = Some c'
           \<and> c_status c' = completed
           \<and> c_extraction c' = c_extraction c"
  using assms
  by (simp add: endCallWithGemini_def endCallWithAI_def Let_def historyItemOf_def)

section \<open>Facts about the coaching gate\<close>

lemma coachingBegin_called:
  "fst (coachingBegin context cache) = None \<longleftrightarrow>
     \<not> isProcessing cache \<and> 15 \<le> length (ctx_transcript context)
     \<and> 60 \<le> int (length (ctx_transcript context)) - int (lastAnalyzedLength cache)"
  by (auto simp: coachingBegin_def)

lemma getAI_not_called:
  assumes "int (length (ctx_transcript context)) - int (lastAnalyzedLength cache) < 60"
  shows "getAICoachingSuggestions reply context cache
           = (if \<not> isProcessing cache \<and> length (ctx_transcript context) < 15 then []
              else lastSuggestions cache, cache, False)"
  using assms by (simp add: getAICoachingSuggestions_def coachingBegin_def)

lemma getAI_called:
  assumes "snd (snd (getAICoachingSuggestions reply context cache))"
  shows "lastAnalyzedLength (fst (snd (getAICoachingSuggestions reply context cache)))
           = length (ctx_transcript context)
       \<and> lastSuggestions (fst (snd (getAICoachingSuggestions reply context cache)))
           = fst (getAICoachingSuggestions reply context cache)
       \<and> \<not> isProcessing (fst (snd (getAICoachingSuggestions reply context cache)))"
  using assms
  by (auto simp: getAICoachingSuggestions_def coachingBegin_def coachingSettle_def
           split: if_splits coachingReply.splits)

lemma ctx_transcript_contextOf: "ctx_transcript (contextOf props) = transcript props"
  by (simp add: contextOf_def)


section \<open>The extraction engine: claims\<close>

text \<open>
  Claim C4. For every chunk and every full transcript, the sentiment score that \<open>analyzeText\<close>
  returns lies in \<open>[5,95] \<union> {50}\<close>; with no positive and no negative keyword hit in
  either text the score is 50 and the label is neutral.
\<close>
theorem sentiment_score_bounded:
  "\<exists>l sc. sentiment_opt (extraction (analyzeText h d text full)) = Some l
         \<and> sentimentScore_opt (extraction (analyzeText h d text full)) = Some sc
         \<and> ((5 \<le> sc \<and> sc \<le> 95) \<or> sc = 50)
         \<and> (totalPositive text full = 0 \<and> totalNegative text full = 0
              \<longrightarrow> sc = 50 \<and> l = neutral)"
  using sentimentOf_bounds [of "totalPositive text full" "totalNegative text full"]
  by (auto simp: analyzeText_sentiment analyzeText_score sentimentOf_zero)

text \<open>Claim C4 at a chunk without any sentiment keyword.\<close>
theorem sentiment_score_bounded_witness:
  "totalPositive ''Hello there'' ''Hello there'' = 0
   \<and> totalNegative ''Hello there'' ''Hello there'' = 0
   \<and> sentiment_opt (extraction (analyzeText exampleHost exampleDraws ''Hello there'' ''Hello there''))
       = Some neutral
   \<and> sentimentScore_opt (extraction (analyzeText exampleHost exampleDraws ''Hello there'' ''Hello there''))
       = Some 50"
proof -
  have h: "totalPositive ''Hello there'' ''Hello there'' = 0
           \<and> totalNegative ''Hello there'' ''Hello there'' = 0"
    by code_simp
  from sentiment_score_bounded
         [of exampleHost exampleDraws "''Hello there''" "''Hello there''"] h
  show ?thesis by auto
qed

text \<open>
  Claim C6. When the lower-cased chunk contains a promise keyword, \<open>analyzeText\<close> returns
  exactly one promise: its description is the first 100 code units of the chunk, its amount
  is parsed from the first match of the amount pattern (and absent without a match), its due
  date is the first match of the date pattern (and absent without one), and
  \<open>hasSignificantContent\<close> is true.
\<close>
theorem promise_detection:
  assumes "list_ex (\<lambda>kw. str_includes (toLowerCase text) kw) PROMISE_KEYWORDS"
  shows "\<exists>p. promises_opt (extraction (analyzeText h d text full)) = Some [p]
            \<and> p_description p = take 100 text
            \<and> length (p_description p) \<le> 100
            \<and> (case match_g AMOUNT_REGEX text of
                 None \<Rightarrow> p_amount p = None
               | Some ms \<Rightarrow> p_amount p = Some (parseFloat h (stripCurrency (hd ms))))
            \<and> (case match_g DATE_REGEX text of
                 None \<Rightarrow> p_dueDate p = None
               | Some ms \<Rightarrow> p_dueDate p = Some (hd ms))
            \<and> hasSignificantContent (analyzeText h d text full)"
proof -
  have hp: "hasPromise text" using assms by (simp add: hasPromise_def)
  have am: "(case match_g AMOUNT_REGEX text of
               None \<Rightarrow> extractedAmount h text = None
             | Some ms \<Rightarrow> extractedAmount h text = Some (parseFloat h (stripCurrency (hd ms))))"
    by (simp add: extractedAmount_Some extractedAmount_None split: option.split)
  have dd: "(case match_g DATE_REGEX text of
               None \<Rightarrow> dueDateOf text = None
             | Some ms \<Rightarrow> dueDateOf text = Some (hd ms))"
    by (simp add: dueDateOf_Some dueDateOf_None split: option.split)
  from hp am dd show ?thesis
    by (auto simp: analyzeText_def Let_def split: option.splits)
qed

text \<open>Claim C6 at the chunk \<open>I promise I will pay KES 5,000 by Friday\<close>.\<close>
theorem promise_detection_witness:
  "list_ex (\<lambda>kw. str_includes (toLowerCase promiseText) kw) PROMISE_KEYWORDS
   \<and> (\<exists>p. promises_opt (extraction (analyzeText exampleHost exampleDraws promiseText promiseText))
             = Some [p]
          \<and> p_description p = promiseText
          \<and> p_amount p = Some (Num 5000)
          \<and> p_dueDate p = Some ''by Friday'')
   \<and> hasSignificantContent (analyzeText exampleHost exampleDraws promiseText promiseText)"
proof -
  have h: "list_ex (\<lambda>kw. str_includes (toLowerCase promiseText) kw) PROMISE_KEYWORDS"
    by code_simp
  have a: "match_g AMOUNT_REGEX promiseText = Some [''KES 5,000'']"
    by code_simp
  have b: "match_g DATE_REGEX promiseText = Some [''by Friday'']"
    by code_simp
  have "stripCurrency ''KES 5,000'' = ''5000''"
    by code_simp
  moreover have "parseFloat exampleHost ''5000'' = Num 5000"
    by (simp add: parseFloat_def digitsVal_def digitVal_def digitChars_def exampleHost_def)
  ultimately have c: "parseFloat exampleHost (stripCurrency ''KES 5,000'') = Num 5000"
    by simp
  have t: "take 100 promiseText = promiseText"
    by (simp add: promiseText_def)
  from promise_detection [OF h, where h = exampleHost and d = exampleDraws and full = promiseText]
  obtain p where
    p1: "promises_opt (extraction (analyzeText exampleHost exampleDraws promiseText promiseText)) = Some [p]"
    and p2: "p_description p = take 100 promiseText"
    and p3: "(case match_g AMOUNT_REGEX promiseText of
                None \<Rightarrow> p_amount p = None
              | Some ms \<Rightarrow> p_amount p = Some (parseFloat exampleHost (stripCurrency (hd ms))))"
    and p4: "(case match_g DATE_REGEX promiseText of
                None \<Rightarrow> p_dueDate p = None
              | Some ms \<Rightarrow> p_dueDate p = Some (hd ms))"
    and p5: "hasSignificantContent (analyzeText exampleHost exampleDraws promiseText promiseText)"
    by blast
  from p3 have "p_amount p = Some (Num 5000)" by (simp only: a c option.case list.sel)
  moreover from p4 have "p_dueDate p = Some ''by Friday''"
    by (simp only: b option.case list.sel)
  moreover from p2 have "p_description p = promiseText" by (simp only: t)
  ultimately show ?thesis using h p1 p5 by blast
qed

text \<open>
  Claim C7. When the lower-cased chunk contains an objection keyword, \<open>analyzeText\<close> emits
  exactly one objection, typed by the first rule that applies: job loss (high), then medical
  (high), then financial hardship (medium), then dispute (high), otherwise other (medium).
\<close>
theorem objection_detection:
  assumes "list_ex (\<lambda>kw. str_includes (toLowerCase text) kw) OBJECTION_KEYWORDS"
  shows "\<exists>ob. objections_opt (extraction (analyzeText h d text full)) = Some [ob]
          \<and> (let t = toLowerCase text;
                  job = (str_includes t ''job'' \<or> str_includes t ''unemployed'');
                  med = (str_includes t ''medical'' \<or> str_includes t ''hospital''
                          \<or> str_includes t ''sick'');
                  fin = (str_includes t ''afford'' \<or> str_includes t ''hardship'');
                  dis = (str_includes t ''dispute'' \<or> str_includes t ''not my''
                          \<or> str_includes t ''wrong'')
              in (job \<longrightarrow> o_type ob = job_loss \<and> o_severity ob = high)
               \<and> (\<not> job \<and> med \<longrightarrow> o_type ob = medical \<and> o_severity ob = high)
               \<and> (\<not> job \<and> \<not> med \<and> fin
                    \<longrightarrow> o_type ob = financial_hardship \<and> o_severity ob = medium)
               \<and> (\<not> job \<and> \<not> med \<and> \<not> fin \<and> dis
                    \<longrightarrow> o_type ob = dispute \<and> o_severity ob = high)
               \<and> (\<not> job \<and> \<not> med \<and> \<not> fin \<and> \<not> dis
                    \<longrightarrow> o_type ob = other_objection \<and> o_severity ob = medium))"
  using objectionKeyword_found [OF assms]
  by (simp add: analyzeText_def Let_def objectionClass_def)

text \<open>
  Claim C7 at the chunk \<open>I lost my job and can't afford this\<close>: one objection, of type job
  loss and severity high.
\<close>
theorem objection_detection_witness:
  "list_ex (\<lambda>kw. str_includes (toLowerCase lostJobText) kw) OBJECTION_KEYWORDS
   \<and> (\<exists>ob. objections_opt (extraction (analyzeText exampleHost exampleDraws lostJobText lostJobText))
              = Some [ob]
           \<and> o_type ob = job_loss \<and> o_severity ob = high)"
proof -
  have h: "list_ex (\<lambda>kw. str_includes (toLowerCase lostJobText) kw) OBJECTION_KEYWORDS"
    by code_simp
  have j: "str_includes (toLowerCase lostJobText) ''job''"
    by code_simp
  from objection_detection [OF h, where h = exampleHost and d = exampleDraws and full = lostJobText] j h
  show ?thesis by (auto simp: Let_def)
qed


section \<open>The session store and the summary: claims\<close>

text \<open>
  Claim C1, as amended. \<open>startCall\<close> never fails: in every state of the store, with or
  without a current call, it installs a fresh call for the customer with status active,
  duration 0 and the empty extraction, and leaves the history alone.
\<close>
theorem startCall_replaces:
  "\<exists>c. currentCall (startCall newId now cust st) = Some c
       \<and> c_id c = newId \<and> c_customer c = cust \<and> c_startedAt c = now
       \<and> c_status c = active \<and> c_duration c = 0 \<and> c_transcript c = []
       \<and> c_extraction c = initialExtraction
       \<and> promises (c_extraction c) = [] \<and> objections (c_extraction c) = []
       \<and> agreements (c_extraction c) = [] \<and> keyQuotes (c_extraction c) = []
       \<and> keywordTags (c_extraction c) = []
       \<and> c_summary c = None
       \<and> callHistory (startCall newId now cust st) = callHistory st
       \<and> theme (startCall newId now cust st) = theme st"
  by (simp add: startCall_def initialExtraction_def)

text \<open>
  Claim C1 as stated fails: in a store with an active call for one customer, \<open>startCall\<close> for
  another customer succeeds and replaces the active call.
\<close>
theorem startCall_active_counterexample:
  "currentCall activeState
     = Some \<lparr>c_id = ''call-1'', c_customer = exampleCustomer, c_startedAt = 1000,
             c_endedAt = None, c_duration = 0, c_status = active, c_transcript = [],
             c_extraction = initialExtraction, c_summary = None, c_isMuted = False\<rparr>
   \<and> currentCall (startCall ''call-2'' 2000 otherCustomer activeState)
     = Some \<lparr>c_id = ''call-2'', c_customer = otherCustomer, c_startedAt = 2000,
             c_endedAt = None, c_duration = 0, c_status = active, c_transcript = [],
             c_extraction = initialExtraction, c_summary = None, c_isMuted = False\<rparr>
   \<and> currentCall (startCall ''call-2'' 2000 otherCustomer activeState)
     \<noteq> currentCall activeState"
  by (simp add: activeState_def startCall_def initialState_def)

text \<open>
  Claim C5. Applying a sequence of partial extractions to a store with a current call
  appends their promises, objections, agreements and key quotes in order; as soon as one of
  them carries keywords, the keywords are those of the call followed by theirs, each kept
  once, at its first occurrence (and the keywords of the call as they were when none
  carries any); the sentiment and the score are the last ones that a partial extraction
  carried, or those of the call when none did; the number of promises grows by the sum of
  the numbers of promises of the partial extractions.
\<close>
theorem extraction_merge:
  assumes "currentCall st = Some c"
  shows "\<exists>c'. currentCall (applyAll xs st) = Some c'
      \<and> promises (c_extraction c')
          = promises (c_extraction c)
            @ concat (map (\<lambda>x. case promises_opt x of None \<Rightarrow> [] | Some l \<Rightarrow> l) xs)
      \<and> objections (c_extraction c')
          = objections (c_extraction c)
            @ concat (map (\<lambda>x. case objections_opt x of None \<Rightarrow> [] | Some l \<Rightarrow> l) xs)
      \<and> agreements (c_extraction c')
          = agreements (c_extraction c)
            @ concat (map (\<lambda>x. case agreements_opt x of None \<Rightarrow> [] | Some l \<Rightarrow> l) xs)
      \<and> keyQuotes (c_extraction c')
          = keyQuotes (c_extraction c)
            @ concat (map (\<lambda>x. case keyQuotes_opt x of None \<Rightarrow> [] | Some l \<Rightarrow> l) xs)
      \<and> set (keywordTags (c_extraction c'))
          = set (keywordTags (c_extraction c))
            \<union> (\<Union>x \<in> set xs. case keywords_opt x of None \<Rightarrow> {} | Some l \<Rightarrow> set l)
      \<and> ((\<exists>x \<in> set xs. keywords_opt x \<noteq> None) \<longrightarrow>
            keywordTags (c_extraction c')
              = rev (remdups (rev (keywordTags (c_extraction c)
                      @ concat (map (\<lambda>x. case keywords_opt x of None \<Rightarrow> [] | Some l \<Rightarrow> l) xs))))
            \<and> distinct (keywordTags (c_extraction c')))
      \<and> ((\<forall>x \<in> set xs. keywords_opt x = None) \<longrightarrow>
            keywordTags (c_extraction c') = keywordTags (c_extraction c))
      \<and> sentiment (c_extraction c')
          = last (sentiment (c_extraction c) # List.map_filter sentiment_opt xs)
      \<and> sentimentScore (c_extraction c')
          = last (sentimentScore (c_extraction c) # List.map_filter sentimentScore_opt xs)
      \<and> (\<forall>s sc. xs \<noteq> [] \<and> sentiment_opt (last xs) = Some s
                  \<and> sentimentScore_opt (last xs) = Some sc
             \<longrightarrow> sentiment (c_extraction c') = s \<and> sentimentScore (c_extraction c') = sc)
      \<and> length (promises (c_extraction c'))
          = length (promises (c_extraction c))
            + sum_list (map (\<lambda>x. case promises_opt x of None \<Rightarrow> 0 | Some l \<Rightarrow> length l) xs)"
proof -
  let ?kw = "\<lambda>x. case keywords_opt x of None \<Rightarrow> [] | Some l \<Rightarrow> l"
  from applyAll_lists [OF assms, of xs] obtain c' where
    c': "currentCall (applyAll xs st) = Some c'"
    and lists: "promises (c_extraction c')
          = promises (c_extraction c)
            @ concat (map (\<lambda>x. case promises_opt x of None \<Rightarrow> [] | Some l \<Rightarrow> l) xs)"
      "objections (c_extraction c')
          = objections (c_extraction c)
            @ concat (map (\<lambda>x. case objections_opt x of None \<Rightarrow> [] | Some l \<Rightarrow> l) xs)"
      "agreements (c_extraction c')
          = agreements (c_extraction c)
            @ concat (map (\<lambda>x. case agreements_opt x of None \<Rightarrow> [] | Some l \<Rightarrow> l) xs)"
      "keyQuotes (c_extraction c')
          = keyQuotes (c_extraction c)
            @ concat (map (\<lambda>x. case keyQuotes_opt x of None \<Rightarrow> [] | Some l \<Rightarrow> l) xs)"
      "set (keywordTags (c_extraction c'))
          = set (keywordTags (c_extraction c))
            \<union> (\<Union>x \<in> set xs. case keywords_opt x of None \<Rightarrow> {} | Some l \<Rightarrow> set l)"
      "\<forall>s sc. xs \<noteq> [] \<and> sentiment_opt (last xs) = Some s
                  \<and> sentimentScore_opt (last xs) = Some sc
             \<longrightarrow> sentiment (c_extraction c') = s \<and> sentimentScore (c_extraction c') = sc"
      "length (promises (c_extraction c'))
          = length (promises (c_extraction c))
            + sum_list (map (\<lambda>x. case promises_opt x of None \<Rightarrow> 0 | Some l \<Rightarrow> length l) xs)"
    by blast
  from applyAll_keywords [OF assms, of xs] c'
  have kw: "keywordTags (c_extraction c')
          = (if \<exists>x \<in> set xs. keywords_opt x \<noteq> None
             then uniq (keywordTags (c_extraction c) @ concat (map ?kw xs))
             else keywordTags (c_extraction c))"
    by auto
  have kw1: "(\<exists>x \<in> set xs. keywords_opt x \<noteq> None) \<longrightarrow>
            keywordTags (c_extraction c')
              = rev (remdups (rev (keywordTags (c_extraction c) @ concat (map ?kw xs))))
            \<and> distinct (keywordTags (c_extraction c'))"
    using kw distinct_uniq [of "keywordTags (c_extraction c) @ concat (map ?kw xs)"]
      uniq_first_occurrences [of "keywordTags (c_extraction c) @ concat (map ?kw xs)"]
    by (simp del: rev_append)
  have kw2: "(\<forall>x \<in> set xs. keywords_opt x = None) \<longrightarrow>
            keywordTags (c_extraction c') = keywordTags (c_extraction c)"
    using kw by simp
  from applyAll_sentiment [OF assms, of xs] c'
  have se: "sentiment (c_extraction c')
          = last (sentiment (c_extraction c) # List.map_filter sentiment_opt xs)"
    and sc: "sentimentScore (c_extraction c')
          = last (sentimentScore (c_extraction c) # List.map_filter sentimentScore_opt xs)"
    by auto
  from c' lists kw1 kw2 se sc show ?thesis by blast
qed

text \<open>
  Claim C5 at a call that holds one promise, for two partial extractions with the same
  keyword, the first with a negative sentiment and the second with none.
\<close>
theorem extraction_merge_witness:
  "currentCall nanState = Some nanCall
   \<and> (\<exists>c'. currentCall (applyAll [firstPartial, secondPartial] nanState) = Some c'
          \<and> promises (c_extraction c')
              = [noDigitPromise, promiseWith (Some (Num 5000)), promiseWith None,
                 promiseWith (Some (Num 5000))]
          \<and> length (promises (c_extraction c')) = 1 + (1 + 2)
          \<and> keywordTags (c_extraction c') = [''KES 5'']
          \<and> sentiment (c_extraction c') = negative
          \<and> sentimentScore (c_extraction c') = 5)"
proof -
  have h: "currentCall nanState = Some nanCall"
    by (simp add: nanState_def)
  have p: "promises (c_extraction nanCall) = [noDigitPromise]"
    "keywordTags (c_extraction nanCall) = []"
    "sentiment (c_extraction nanCall) = neutral"
    "sentimentScore (c_extraction nanCall) = 50"
    by (simp_all add: nanCall_def initialExtraction_def)
  from extraction_merge [OF h, of "[firstPartial, secondPartial]"]
  show ?thesis using h p
    by (auto simp: firstPartial_def secondPartial_def List.map_filter_simps)
qed


text \<open>
  Claim C8. For a transcript shorter than 10 code units \<open>generateAISummary\<close> does not call the
  remote service and returns the fixed minimal summary with exactly two next actions.
\<close>
theorem minimal_summary:
  assumes "length txt < 10"
  shows "generateAISummary h reply txt cname debt duration ex
           = (\<lparr>sr_summary = ''Session completed with minimal conversation.'',
                sr_nextActions = [''Schedule follow-up call'', ''Review account status'']\<rparr>,
              False)
         \<and> length (sr_nextActions
                     (fst (generateAISummary h reply txt cname debt duration ex))) = 2"
  using assms by (simp add: generateAISummary_def)

text \<open>Claim C8 at the empty transcript.\<close>
theorem minimal_summary_witness:
  "length '''' < (10::nat)
   \<and> generateAISummary exampleHost (SummaryParsed (Some ''All good.'') (Some [''Call again'']))
        '''' ''Amina'' (Num 12000) 0
        \<lparr>ex_promises = [], ex_objections = [], ex_agreements = [], ex_sentiment = neutral\<rparr>
      = (\<lparr>sr_summary = ''Session completed with minimal conversation.'',
           sr_nextActions = [''Schedule follow-up call'', ''Review account status'']\<rparr>, False)"
proof -
  have h: "length '''' < (10::nat)" by simp
  from minimal_summary [OF h] show ?thesis by simp
qed

text \<open>
  Claim C9, as amended. When a call is ended, by \<open>endCall\<close> or by \<open>endCallWithAI\<close>, the history
  item that is added has as \<open>totalPromisedAmount\<close> the sum of the amounts of the promises of
  the call, added from left to right in the arithmetic of the host starting from 0, a
  missing amount and an amount \<open>NaN\<close> both counting as 0. This holds whatever the rounding of
  that arithmetic is.
\<close>
theorem total_promised_amount:
  assumes "currentCall st = Some c"
  shows "(\<exists>item. callHistory (endCall d h s st) = item # callHistory st
            \<and> h_totalPromisedAmount item
                = sumOfNumericAmounts h (promises (c_extraction c)))
       \<and> (\<exists>item. callHistory (endCallWithGemini d d' h reply later st)
                    = item # callHistory later
            \<and> h_totalPromisedAmount item
                = sumOfNumericAmounts h (promises (c_extraction c)))
       \<and> (endCallWithAI d d' h summarise later st = endCall d' h None later
            \<or> (\<exists>item. callHistory (endCallWithAI d d' h summarise later st)
                         = item # callHistory later
                 \<and> h_totalPromisedAmount item
                     = sumOfNumericAmounts h (promises (c_extraction c))))"
proof (intro conjI)
  from endCall_Some [OF assms, of d h s]
  show "\<exists>item. callHistory (endCall d h s st) = item # callHistory st
            \<and> h_totalPromisedAmount item
                = sumOfNumericAmounts h (promises (c_extraction c))"
    by (auto simp: totalAmountOf_sum)
next
  from endCallWithGemini_Some [OF assms, of d d' h reply later]
  show "\<exists>item. callHistory (endCallWithGemini d d' h reply later st)
                    = item # callHistory later
            \<and> h_totalPromisedAmount item
                = sumOfNumericAmounts h (promises (c_extraction c))"
    by (auto simp: totalAmountOf_sum)
next
  show "endCallWithAI d d' h summarise later st = endCall d' h None later
            \<or> (\<exists>item. callHistory (endCallWithAI d d' h summarise later st)
                         = item # callHistory later
                 \<and> h_totalPromisedAmount item
                     = sumOfNumericAmounts h (promises (c_extraction c)))"
  proof (cases "endCallWithAI d d' h summarise later st = endCall d' h None later")
    case True
    then show ?thesis by simp
  next
    case False
    from endCallWithAI_Inr [OF assms False] show ?thesis
      by (auto simp: totalAmountOf_sum)
  qed
qed

text \<open>
  Claim C9, as amended, at a call with three promises: one of 5000, one without amount and
  one whose amount is \<open>NaN\<close>. The total is 5000.
\<close>
theorem total_promised_amount_witness:
  "currentCall mixedState = Some mixedCall
   \<and> map h_totalPromisedAmount
         (callHistory (endCall exampleEndDraws exampleHost None mixedState))
       = [Num 5000]"
proof -
  have h: "currentCall mixedState = Some mixedCall"
    by (simp add: mixedState_def)
  have p: "sumOfNumericAmounts exampleHost (promises (c_extraction mixedCall)) = Num 5000"
    by (simp add: mixedCall_def sumOfNumericAmounts_def promiseWith_def noDigitPromise_def
          exampleHost_def)
  have e: "callHistory mixedState = []"
    by (simp add: mixedState_def)
  from total_promised_amount [OF h, where d = exampleEndDraws and h = exampleHost and s = None]
  obtain item where
    "callHistory (endCall exampleEndDraws exampleHost None mixedState)
       = item # callHistory mixedState"
    and "h_totalPromisedAmount item
           = sumOfNumericAmounts exampleHost (promises (c_extraction mixedCall))"
    by blast
  with p e h show ?thesis by simp
qed

text \<open>
  Claim C9 as stated fails: the chunk \<open>I will pay KES , soon\<close> gives a promise whose
  amount is \<open>NaN\<close>; for a call whose only promise it is, the history item gets the total 0,
  whereas the sum of the amount fields is \<open>NaN\<close>.
\<close>
theorem total_promised_counterexample:
  "promises_opt (extraction (analyzeText exampleHost exampleDraws noDigitText noDigitText))
     = Some [noDigitPromise]
   \<and> currentCall nanState = Some nanCall
   \<and> promises (c_extraction nanCall) = [noDigitPromise]
   \<and> p_amount noDigitPromise = Some NaN
   \<and> map h_totalPromisedAmount (callHistory (endCall exampleEndDraws exampleHost None nanState))
       = [Num 0]
   \<and> sumOfAmountFields exampleHost (promises (c_extraction nanCall)) = NaN"
  using analyzeText_NaN_amount
  by (simp add: nanState_def nanCall_def endCall_def Let_def historyItemOf_def
        totalAmountOf_def amountOrZero_def noDigitPromise_def sumOfAmountFields_def
        exampleHost_def)

text \<open>
  Claim C10. Without a current call, \<open>endCall\<close> and \<open>endCallWithAI\<close> return the store
  unchanged: no history item is added and no summary is made.
\<close>
theorem end_without_call:
  assumes "currentCall st = None"
  shows "endCall d h s st = st
       \<and> endCallWithAI d d' h summarise later st = st
       \<and> endCallWithGemini d d' h reply later st = st"
  using assms by (simp add: endCall_def endCallWithAI_def endCallWithGemini_def)

text \<open>Claim C10 at the initial store.\<close>
theorem end_without_call_witness:
  "currentCall initialState = None
   \<and> endCall exampleEndDraws exampleHost None initialState = initialState
   \<and> endCallWithGemini exampleEndDraws exampleEndDraws exampleHost SummaryFailed nanState
        initialState = initialState
   \<and> callHistory (endCall exampleEndDraws exampleHost None initialState) = []"
proof -
  have h: "currentCall initialState = None"
    by (simp add: initialState_def)
  from end_without_call [OF h] h show ?thesis
    by (simp add: initialState_def)
qed


section \<open>The coaching gate: claims\<close>

text \<open>
  Claim C2. After a trigger that fetched suggestions at some transcript, a trigger at a
  transcript fewer than 50 code units longer calls no remote service and changes nothing:
  the panel keeps its suggestions, and the service, when asked, answers with the list it
  cached at the fetch.
\<close>
theorem coaching_throttle:
  assumes first: "fetchSuggestions reply1 props1 (panel0, cache0) = (panel1, cache1, True)"
    and growth: "int (length (transcript props2)) - int (length (transcript props1)) < 50"
  shows "fetchSuggestions reply2 props2 (panel1, cache1) = (panel1, cache1, False)
       \<and> suggestions (fst (fetchSuggestions reply2 props2 (panel1, cache1))) = suggestions panel1
       \<and> (15 \<le> length (transcript props2) \<longrightarrow>
            getAICoachingSuggestions reply2 (contextOf props2) cache1
              = (fst (getAICoachingSuggestions reply1 (contextOf props1) cache0), cache1, False))"
proof -
  let ?r = "getAICoachingSuggestions reply1 (contextOf props1) cache0"
  from first have r: "?r = (fst ?r, cache1, True)"
    and panel1: "panel1 = (if fst ?r \<noteq> []
                         then panel0\<lparr>suggestions := fst ?r,
                                    lastProcessedLength := length (transcript props1)\<rparr>
                         else panel0)\<lparr>isLoading := False\<rparr>"
    by (auto simp: fetchSuggestions_def Let_def split: if_splits prod.splits)
  from r have called: "snd (snd ?r)" and c1: "fst (snd ?r) = cache1"
    by (metis snd_conv, metis fst_conv snd_conv)
  from getAI_called [OF called] c1
  have len: "lastAnalyzedLength cache1 = length (transcript props1)"
    and last: "lastSuggestions cache1 = fst ?r"
    and idle: "\<not> isProcessing cache1"
    by (simp_all add: ctx_transcript_contextOf)
  from growth len
  have lt: "int (length (ctx_transcript (contextOf props2))) - int (lastAnalyzedLength cache1) < 60"
    by (simp add: ctx_transcript_contextOf)
  have svc: "getAICoachingSuggestions reply2 (contextOf props2) cache1
               = (if length (transcript props2) < 15 then [] else fst ?r, cache1, False)"
    using getAI_not_called [OF lt, of reply2] idle last
    by (simp add: ctx_transcript_contextOf)
  have loading: "panel1\<lparr>isLoading := False\<rparr> = panel1"
    by (subst (2) panel1, subst panel1) simp
  have gate: "fetchSuggestions reply2 props2 (panel1, cache1) = (panel1, cache1, False)"
  proof (cases "\<not> isActive props2 \<or> length (transcript props2) < 20
                 \<or> int (length (transcript props2)) - int (lastProcessedLength panel1) < 50")
    case True
    then show ?thesis by (auto simp: fetchSuggestions_def Let_def)
  next
    case False
    then have big: "20 \<le> length (transcript props2)"
      and far: "50 \<le> int (length (transcript props2)) - int (lastProcessedLength panel1)"
      and act: "isActive props2"
      by simp_all
    have empty: "fst ?r = []"
    proof (rule ccontr)
      assume "fst ?r \<noteq> []"
      with panel1 have "lastProcessedLength panel1 = length (transcript props1)" by simp
      with far growth show False by simp
    qed
    from big act far svc empty loading show ?thesis
      by (simp add: fetchSuggestions_def Let_def)
  qed
  from gate svc show ?thesis by simp
qed

text \<open>Claim C2 at a transcript of 72 code units, then one of 84.\<close>
theorem coaching_throttle_witness:
  "fetchSuggestions (CoachingParsed [sampleSuggestion]) (coachingProps longTranscript)
      (idleComponent, emptyCache)
     = (\<lparr>suggestions = [sampleSuggestion], lastProcessedLength = 72, isLoading = False\<rparr>,
        \<lparr>lastAnalyzedLength = 72, lastSuggestions = [sampleSuggestion], isProcessing = False\<rparr>,
        True)
   \<and> int (length (transcript (coachingProps longerTranscript)))
       - int (length (transcript (coachingProps longTranscript))) < 50
   \<and> fetchSuggestions CoachingFailed (coachingProps longerTranscript)
        (\<lparr>suggestions = [sampleSuggestion], lastProcessedLength = 72, isLoading = False\<rparr>,
         \<lparr>lastAnalyzedLength = 72, lastSuggestions = [sampleSuggestion], isProcessing = False\<rparr>)
     = (\<lparr>suggestions = [sampleSuggestion], lastProcessedLength = 72, isLoading = False\<rparr>,
        \<lparr>lastAnalyzedLength = 72, lastSuggestions = [sampleSuggestion], isProcessing = False\<rparr>,
        False)"
proof -
  have n: "length longTranscript = 72"
    by (simp add: longTranscript_def)
  have h1: "fetchSuggestions (CoachingParsed [sampleSuggestion]) (coachingProps longTranscript)
      (idleComponent, emptyCache)
     = (\<lparr>suggestions = [sampleSuggestion], lastProcessedLength = 72, isLoading = False\<rparr>,
        \<lparr>lastAnalyzedLength = 72, lastSuggestions = [sampleSuggestion], isProcessing = False\<rparr>,
        True)"
    by (simp add: fetchSuggestions_def Let_def coachingProps_def idleComponent_def
          emptyCache_def getAICoachingSuggestions_def coachingBegin_def coachingSettle_def
          ctx_transcript_contextOf n sampleSuggestion_def)
  have h2: "int (length (transcript (coachingProps longerTranscript)))
       - int (length (transcript (coachingProps longTranscript))) < 50"
    by (simp add: coachingProps_def longerTranscript_def)
  from coaching_throttle [OF h1 h2, of CoachingFailed] h1 h2 show ?thesis by simp
qed

text \<open>
  Claim C3. For a transcript shorter than 20 code units a trigger calls no remote service and
  changes neither the panel nor the cache; the service itself, asked with such a transcript,
  calls no remote service either.
\<close>
theorem coaching_floor:
  assumes "length (transcript props) < 20"
  shows "fetchSuggestions reply props (panel, cache) = (panel, cache, False)
       \<and> getAICoachingSuggestions reply (contextOf props) cache
           = (if \<not> isProcessing cache \<and> length (transcript props) < 15 then []
              else lastSuggestions cache, cache, False)"
proof -
  from assms
  have "int (length (ctx_transcript (contextOf props))) - int (lastAnalyzedLength cache) < 60"
    by (simp add: ctx_transcript_contextOf)
  from getAI_not_called [OF this, of reply] assms show ?thesis
    by (simp add: fetchSuggestions_def Let_def ctx_transcript_contextOf)
qed

text \<open>Claim C3 at a transcript of 11 code units.\<close>
theorem coaching_floor_witness:
  "length (transcript (coachingProps ''Hello there'')) < 20
   \<and> fetchSuggestions (CoachingParsed [sampleSuggestion]) (coachingProps ''Hello there'')
        (idleComponent, emptyCache)
     = (idleComponent, emptyCache, False)
   \<and> getAICoachingSuggestions (CoachingParsed [sampleSuggestion])
        (contextOf (coachingProps ''Hello there'')) emptyCache
     = ([], emptyCache, False)"
proof -
  have h: "length (transcript (coachingProps ''Hello there'')) < 20"
    by (simp add: coachingProps_def)
  have i: "\<not> isProcessing emptyCache" "length (transcript (coachingProps ''Hello there'')) < 15"
    by (simp_all add: emptyCache_def coachingProps_def)
  from coaching_floor [OF h, of "CoachingParsed [sampleSuggestion]" idleComponent emptyCache] h i
  show ?thesis by simp
qed


end
